theory Spec2Isabelle
  imports Main "HOL-Library.AList"
begin

section \<open>Values, dictionaries and exceptions\<close>

text \<open>
  The argument map of a tool request is a JSON object decoded into a Python dict
  (\<^verbatim>\<open>Dict[str, Any]\<close>). Its values are modelled by \<open>pyval\<close>; JSON numbers with a
  fraction (Python floats) are left out. A dict is an association list in insertion
  order, read with \<^const>\<open>map_of\<close> (Python's \<^verbatim>\<open>d.get(k)\<close>) and written with
  \<^const>\<open>AList.update\<close> (Python's \<^verbatim>\<open>d[k] = v\<close>: an existing key keeps its place, a new key
  goes to the end).
\<close>

datatype pyval =
    VNone
  | VBool bool
  | VInt int
  | VStr string
  | VList "pyval list"
  | VDict "(string \<times> pyval) list"

type_synonym pydict = "(string \<times> pyval) list"

text \<open>Python truthiness, as used by \<^verbatim>\<open>if x\<close> and \<^verbatim>\<open>not x\<close>.\<close>

fun truthy :: "pyval \<Rightarrow> bool" where
  "truthy VNone = False"
| "truthy (VBool b) = b"
| "truthy (VInt n) = (n \<noteq> 0)"
| "truthy (VStr s) = (s \<noteq> [])"
| "truthy (VList xs) = (xs \<noteq> [])"
| "truthy (VDict kvs) = (kvs \<noteq> [])"

text \<open>\<^verbatim>\<open>d.get(k)\<close> with the default \<^verbatim>\<open>None\<close>, and \<^verbatim>\<open>d.get(k, dflt)\<close>.\<close>

definition dict_get :: "pydict \<Rightarrow> string \<Rightarrow> pyval" where
  "dict_get d k = (case map_of d k of None \<Rightarrow> VNone | Some v \<Rightarrow> v)"

definition dict_get_default :: "pydict \<Rightarrow> string \<Rightarrow> pyval \<Rightarrow> pyval" where
  "dict_get_default d k dflt = (case map_of d k of None \<Rightarrow> dflt | Some v \<Rightarrow> v)"

text \<open>
  The exceptions the code raises. \<open>PolicyViolationError\<close> carries the fields
  \<^verbatim>\<open>tool_name\<close>, \<^verbatim>\<open>mode\<close> and \<^verbatim>\<open>reason\<close> of the source class; its display message
  (an f-string that prints the unhealthy set in hash order) is not modelled.
  \<open>UnknownTool\<close> and \<open>InvalidArguments\<close> are the two \<^verbatim>\<open>ValueError\<close>s raised by
  \<^verbatim>\<open>_execute_tool_function\<close>; \<open>HTTPException\<close> carries the status code.
\<close>

datatype exn =
    PolicyViolationError string string string
  | KeyError string
  | TypeError
  | UnknownTool string
  | InvalidArguments string
  | HTTPException nat

text \<open>
  Membership of a Python value in a container keyed by strings (\<^verbatim>\<open>x in s\<close> for a set
  of strings, \<^verbatim>\<open>x in d\<close> for a dict with string keys): a list or a dict is unhashable
  and raises \<^verbatim>\<open>TypeError\<close>; any other non-string value is simply not a member.
\<close>

fun py_in :: "pyval \<Rightarrow> string set \<Rightarrow> exn + bool" where
  "py_in (VStr s) S = Inr (s \<in> S)"
| "py_in (VList xs) S = Inl TypeError"
| "py_in (VDict kvs) S = Inl TypeError"
| "py_in v S = Inr False"

section \<open>The policy document\<close>

text \<open>
  The policy file \<^verbatim>\<open>policies/ops_policy.json\<close> is configuration that the engine loads
  at start; it is a parameter of every definition below. The record fields are the
  keys the code reads with \<^verbatim>\<open>[...]\<close>; \<^verbatim>\<open>service_restrictions\<close> is read with
  \<^verbatim>\<open>.get\<close> and so is optional. \<open>always_blocked\<close> is
  \<^verbatim>\<open>policy['global_rules']['always_blocked']\<close>.
\<close>

record mode_policy =
  description :: string
  allowed_tools :: "string list"
  blocked_tools :: "string list"
  rationale :: string
  service_restrictions :: "pydict option"

record policy_doc =
  always_blocked :: "string list"
  modes :: "(string \<times> mode_policy) list"

section \<open>The policy engine\<close>

text \<open>\<^verbatim>\<open>PolicyEngine._is_modification_tool\<close>.\<close>

definition is_modification_tool :: "string \<Rightarrow> bool" where
  "is_modification_tool tool \<longleftrightarrow>
     tool \<in> set [''restart_service'', ''scale_fleet'', ''delete_database'']"

text \<open>
  \<^verbatim>\<open>PolicyEngine.validate\<close>. The engine's state that it reads (the current mode and
  the set of unhealthy services) is passed in. The method returns \<^verbatim>\<open>True\<close> or raises;
  \<open>Inl\<close> is the exception raised. A current mode that the policy does not declare
  raises \<^verbatim>\<open>KeyError\<close> at \<^verbatim>\<open>self.policy['modes'][self.current_mode]\<close>.
\<close>

definition validate ::
  "policy_doc \<Rightarrow> string \<Rightarrow> string set \<Rightarrow> string \<Rightarrow> pydict \<Rightarrow> exn + bool" where
  "validate pol cur_mode unhealthy tool args =
     (if tool \<in> set (always_blocked pol) then
        Inl (PolicyViolationError tool cur_mode ''Globally blocked'')
      else
        (case map_of (modes pol) cur_mode of
           None \<Rightarrow> Inl (KeyError cur_mode)
         | Some mp \<Rightarrow>
             if tool \<in> set (blocked_tools mp) then
               Inl (PolicyViolationError tool cur_mode (rationale mp))
             else if tool \<notin> set (allowed_tools mp) then
               Inl (PolicyViolationError tool cur_mode ''Not in allowed tools list'')
             else if is_modification_tool tool then
               (let service_name = dict_get args ''service_name'' in
                if \<not> truthy service_name then
                  Inl (PolicyViolationError tool cur_mode ''Missing service target'')
                else if cur_mode = ''EMERGENCY'' then
                  (let restrictions =
                         (case service_restrictions mp of None \<Rightarrow> [] | Some r \<Rightarrow> r) in
                   if truthy (dict_get_default restrictions ''enabled'' (VBool False)) then
                     (case py_in service_name unhealthy of
                        Inl e \<Rightarrow> Inl e
                      | Inr True \<Rightarrow> Inr True
                      | Inr False \<Rightarrow>
                          Inl (PolicyViolationError tool cur_mode
                                 ''Target service is not unhealthy''))
                   else Inr True)
                else Inr True)
             else Inr True))"

text \<open>
  The conditions of the first three checks of \<^verbatim>\<open>validate\<close>, named so that the
  properties below can say ``the request passes the global-block, mode-block and
  whitelist checks'', and the truth value of the mode's
  \<^verbatim>\<open>service_restrictions.enabled\<close> as \<^verbatim>\<open>validate\<close> reads it.
\<close>

definition passes_static_checks :: "policy_doc \<Rightarrow> string \<Rightarrow> string \<Rightarrow> bool" where
  "passes_static_checks pol cur_mode tool \<longleftrightarrow>
     tool \<notin> set (always_blocked pol) \<and>
     (case map_of (modes pol) cur_mode of
        None \<Rightarrow> False
      | Some mp \<Rightarrow> tool \<notin> set (blocked_tools mp) \<and> tool \<in> set (allowed_tools mp))"

definition restriction_enabled :: "policy_doc \<Rightarrow> string \<Rightarrow> bool" where
  "restriction_enabled pol cur_mode \<longleftrightarrow>
     (case map_of (modes pol) cur_mode of
        None \<Rightarrow> False
      | Some mp \<Rightarrow>
          truthy (dict_get_default
                    (case service_restrictions mp of None \<Rightarrow> [] | Some r \<Rightarrow> r)
                    ''enabled'' (VBool False)))"

section \<open>The mock infrastructure\<close>

text \<open>
  \<^verbatim>\<open>CloudInfrastructure\<close> of \<^verbatim>\<open>tools.py\<close>: the health map \<^verbatim>\<open>services\<close> (an insertion
  ordered dict from service name to health string), the fleet size and the execution
  log. Time stamps (\<^verbatim>\<open>datetime.now()\<close>) are left out of log entries and results.
\<close>

record log_entry =
  action :: string
  details :: pydict

record cloud_infrastructure =
  services :: "(string \<times> string) list"
  fleet_size :: int
  execution_log :: "log_entry list"

definition initial_infrastructure :: cloud_infrastructure where
  "initial_infrastructure =
     \<lparr>services = [(''web-server'', ''healthy''), (''api-gateway'', ''healthy''),
                  (''database'', ''healthy''), (''cache'', ''healthy''),
                  (''load-balancer'', ''healthy'')],
      fleet_size = 3,
      execution_log = []\<rparr>"

text \<open>\<^verbatim>\<open>_log_action\<close>: append, then keep the last 100 entries.\<close>

definition log_action ::
  "string \<Rightarrow> pydict \<Rightarrow> cloud_infrastructure \<Rightarrow> cloud_infrastructure" where
  "log_action a d c =
     (let l = execution_log c @ [\<lparr>action = a, details = d\<rparr>] in
      c\<lparr>execution_log := (if length l > 100 then drop (length l - 100) l else l)\<rparr>)"

text \<open>\<^verbatim>\<open>set_service_health\<close>: a service that is not a key of the health map is ignored.\<close>

definition set_service_health ::
  "string \<Rightarrow> string \<Rightarrow> cloud_infrastructure \<Rightarrow> cloud_infrastructure" where
  "set_service_health service status c =
     (case map_of (services c) service of
        None \<Rightarrow> c
      | Some old_status \<Rightarrow>
          log_action ''health_change''
            [(''service'', VStr service), (''old_status'', VStr old_status),
             (''new_status'', VStr status)]
            (c\<lparr>services := AList.update service status (services c)\<rparr>))"

text \<open>\<^verbatim>\<open>get_unhealthy_services\<close>.\<close>

definition get_unhealthy_services :: "cloud_infrastructure \<Rightarrow> string list" where
  "get_unhealthy_services c =
     map fst (filter (\<lambda>(name, health). health \<in> set [''critical'', ''degraded''])
                (services c))"

text \<open>
  The results of the tools. Each constructor stands for one dict literal of the source
  and carries the values the source puts into it; \<open>result_status\<close> is the value under
  the key \<^verbatim>\<open>"status"\<close>, where the dict has one.
\<close>

datatype log_line =
    LogInfo string
  | LogWarn string
  | LogError string
  | LogFleetCheck int
  | LogTotalServices nat
  | LogEntryCount nat

datatype tool_result =
    ServiceNotFound pyval "string list"
  | ServiceStatus string string
  | AllStatus "(string \<times> string) list" int "string list"
  | ServiceList "string list"
  | LogLines "log_line list" nat nat
  | RestartSuccess string string
  | ScaleError string
  | ScaleSuccess int int
  | DeleteError pyval

fun result_status :: "tool_result \<Rightarrow> string option" where
  "result_status (ServiceNotFound v ks) = Some ''error''"
| "result_status (RestartSuccess s old) = Some ''success''"
| "result_status (ScaleError m) = Some ''error''"
| "result_status (ScaleSuccess old new) = Some ''success''"
| "result_status (DeleteError v) = Some ''error''"
| "result_status r = None"

text \<open>
  \<^verbatim>\<open>service_name not in self.services\<close> followed by \<^verbatim>\<open>self.services[service_name]\<close>:
  the key and its health when the value is a key of the health map, \<^verbatim>\<open>TypeError\<close> for
  an unhashable value.
\<close>

fun lookup_service ::
  "(string \<times> string) list \<Rightarrow> pyval \<Rightarrow> exn + (string \<times> string) option" where
  "lookup_service svcs (VStr s) =
     Inr (case map_of svcs s of None \<Rightarrow> None | Some h \<Rightarrow> Some (s, h))"
| "lookup_service svcs (VList xs) = Inl TypeError"
| "lookup_service svcs (VDict kvs) = Inl TypeError"
| "lookup_service svcs v = Inr None"

text \<open>
  A Python value used as an integer (\<^verbatim>\<open>bool\<close> is a subtype of \<^verbatim>\<open>int\<close>, with
  \<^verbatim>\<open>True == 1\<close>); comparing or subtracting anything else with an \<^verbatim>\<open>int\<close> raises
  \<^verbatim>\<open>TypeError\<close>.
\<close>

fun as_int :: "pyval \<Rightarrow> int option" where
  "as_int (VInt n) = Some n"
| "as_int (VBool b) = Some (if b then 1 else 0)"
| "as_int v = None"

text \<open>The slice \<^verbatim>\<open>xs[:n]\<close> for an integer \<open>n\<close>.\<close>

definition slice_to :: "'a list \<Rightarrow> int \<Rightarrow> 'a list" where
  "slice_to xs n = (if 0 \<le> n then take (nat n) xs else take (length xs - nat (- n)) xs)"

text \<open>The methods of \<^verbatim>\<open>CloudInfrastructure\<close>. Each logs first, as the source does.\<close>

definition list_services ::
  "cloud_infrastructure \<Rightarrow> cloud_infrastructure \<times> (exn + tool_result)" where
  "list_services c =
     (let c' = log_action ''list_services'' [] c in
      (c', Inr (ServiceList (map fst (services c')))))"

definition get_service_status ::
  "pyval \<Rightarrow> cloud_infrastructure \<Rightarrow> cloud_infrastructure \<times> (exn + tool_result)" where
  "get_service_status service_name c =
     (let c' = log_action ''get_service_status'' [(''service'', service_name)] c in
      if truthy service_name then
        (case lookup_service (services c') service_name of
           Inl e \<Rightarrow> (c', Inl e)
         | Inr None \<Rightarrow> (c', Inr (ServiceNotFound service_name (map fst (services c'))))
         | Inr (Some (s, health)) \<Rightarrow> (c', Inr (ServiceStatus s health)))
      else
        (c', Inr (AllStatus (services c') (fleet_size c') (get_unhealthy_services c'))))"

definition read_logs ::
  "pyval \<Rightarrow> cloud_infrastructure \<Rightarrow> cloud_infrastructure \<times> (exn + tool_result)" where
  "read_logs lines c =
     (let c' = log_action ''read_logs'' [(''lines'', lines)] c;
          log_entries =
            concat (map (\<lambda>(service, health).
                           if health = ''healthy'' then [LogInfo service]
                           else if health = ''degraded'' then [LogWarn service]
                           else if health = ''critical'' then [LogError service]
                           else [])
                        (services c'))
            @ [LogFleetCheck (fleet_size c'), LogTotalServices (length (services c')),
               LogEntryCount (length (execution_log c'))]
      in case lines of
           VNone \<Rightarrow>
             (c', Inr (LogLines log_entries (length log_entries) (length (services c'))))
         | _ \<Rightarrow>
             (case as_int lines of
                None \<Rightarrow> (c', Inl TypeError)
              | Some n \<Rightarrow>
                  (c', Inr (LogLines (slice_to log_entries n) (length log_entries)
                              (length (services c'))))))"

definition restart_service ::
  "pyval \<Rightarrow> cloud_infrastructure \<Rightarrow> cloud_infrastructure \<times> (exn + tool_result)" where
  "restart_service service_name c =
     (let c' = log_action ''restart_service'' [(''service'', service_name)] c in
      case lookup_service (services c') service_name of
        Inl e \<Rightarrow> (c', Inl e)
      | Inr None \<Rightarrow> (c', Inr (ServiceNotFound service_name (map fst (services c'))))
      | Inr (Some (s, old_health)) \<Rightarrow>
          (c'\<lparr>services := AList.update s ''healthy'' (services c')\<rparr>,
           Inr (RestartSuccess s old_health)))"

definition scale_fleet ::
  "pyval \<Rightarrow> cloud_infrastructure \<Rightarrow> cloud_infrastructure \<times> (exn + tool_result)" where
  "scale_fleet count c =
     (let c' = log_action ''scale_fleet'' [(''target_count'', count)] c in
      case as_int count of
        None \<Rightarrow> (c', Inl TypeError)
      | Some n \<Rightarrow>
          if n < 1 then (c', Inr (ScaleError ''Fleet size must be at least 1''))
          else if n > 100 then
            (c', Inr (ScaleError ''Fleet size cannot exceed 100 instances''))
          else (c'\<lparr>fleet_size := n\<rparr>, Inr (ScaleSuccess (fleet_size c') n)))"

definition delete_database ::
  "pyval \<Rightarrow> cloud_infrastructure \<Rightarrow> cloud_infrastructure \<times> (exn + tool_result)" where
  "delete_database db_name c =
     (log_action ''delete_database_attempt'' [(''db_name'', db_name)] c,
      Inr (DeleteError db_name))"

section \<open>The tool dispatcher and the impact simulator\<close>

text \<open>
  \<^verbatim>\<open>tool_function(**arguments)\<close>: the call binds when every key of the argument map is a
  parameter of the function and every parameter without a default is given; otherwise
  Python raises \<^verbatim>\<open>TypeError\<close>.
\<close>

definition binds :: "string list \<Rightarrow> string list \<Rightarrow> pydict \<Rightarrow> bool" where
  "binds required optional args \<longleftrightarrow>
     list_all (\<lambda>k. k \<in> set (required @ optional)) (map fst args) \<and>
     list_all (\<lambda>k. k \<in> set (map fst args)) required"

definition tool_map :: "string list" where
  "tool_map = [''get_service_status'', ''read_logs'', ''restart_service'', ''scale_fleet'',
               ''delete_database'', ''list_services'']"

text \<open>
  \<^verbatim>\<open>_execute_tool_function\<close>. An unknown tool raises \<^verbatim>\<open>ValueError("Unknown tool")\<close>; a
  \<^verbatim>\<open>TypeError\<close> from the call, whether from binding the arguments or from inside the
  tool, is re-raised as \<^verbatim>\<open>ValueError("Invalid arguments")\<close>. A tool that raised after
  logging leaves its log entry behind.
\<close>

definition as_invalid_arguments ::
  "string \<Rightarrow> cloud_infrastructure \<times> (exn + tool_result) \<Rightarrow>
     cloud_infrastructure \<times> (exn + tool_result)" where
  "as_invalid_arguments tool r =
     (case r of
        (c, Inl TypeError) \<Rightarrow> (c, Inl (InvalidArguments tool))
      | _ \<Rightarrow> r)"

definition execute_tool_function ::
  "string \<Rightarrow> pydict \<Rightarrow> cloud_infrastructure \<Rightarrow>
     cloud_infrastructure \<times> (exn + tool_result)" where
  "execute_tool_function tool args c =
     (if tool \<notin> set tool_map then (c, Inl (UnknownTool tool))
      else if tool = ''get_service_status'' then
        (if binds [] [''service_name''] args
         then as_invalid_arguments tool (get_service_status (dict_get args ''service_name'') c)
         else (c, Inl (InvalidArguments tool)))
      else if tool = ''read_logs'' then
        (if binds [] [''lines''] args
         then as_invalid_arguments tool
                (read_logs (dict_get_default args ''lines'' (VInt 10)) c)
         else (c, Inl (InvalidArguments tool)))
      else if tool = ''restart_service'' then
        (if binds [''service_name''] [] args
         then as_invalid_arguments tool (restart_service (dict_get args ''service_name'') c)
         else (c, Inl (InvalidArguments tool)))
      else if tool = ''scale_fleet'' then
        (if binds [''count''] [] args
         then as_invalid_arguments tool (scale_fleet (dict_get args ''count'') c)
         else (c, Inl (InvalidArguments tool)))
      else if tool = ''delete_database'' then
        (if binds [''db_name''] [] args
         then as_invalid_arguments tool (delete_database (dict_get args ''db_name'') c)
         else (c, Inl (InvalidArguments tool)))
      else
        (if binds [] [] args
         then as_invalid_arguments tool (list_services c)
         else (c, Inl (InvalidArguments tool))))"

text \<open>
  \<^verbatim>\<open>ImpactSimulator.simulate\<close>. It reads the infrastructure and changes nothing. The
  health of an unknown service is \<^verbatim>\<open>"unknown"\<close>; an unhashable service name and a
  count that is not a number raise \<^verbatim>\<open>TypeError\<close>.
\<close>

datatype impact_report =
    RestartImpact pyval string
  | ScaleImpact int pyval int
  | DeleteImpact
  | NoImpact

definition simulate :: "string \<Rightarrow> pydict \<Rightarrow> cloud_infrastructure \<Rightarrow> exn + impact_report" where
  "simulate tool args c =
     (if tool = ''restart_service'' then
        (let service = dict_get args ''service_name'' in
         case lookup_service (services c) service of
           Inl e \<Rightarrow> Inl e
         | Inr None \<Rightarrow> Inr (RestartImpact service ''unknown'')
         | Inr (Some (s, health)) \<Rightarrow> Inr (RestartImpact service health))
      else if tool = ''scale_fleet'' then
        (let current = fleet_size c; target = dict_get args ''count'' in
         case as_int target of
           None \<Rightarrow> Inl TypeError
         | Some n \<Rightarrow> Inr (ScaleImpact current target ((n - current) * 4000)))
      else if tool = ''delete_database'' then Inr DeleteImpact
      else Inr NoImpact)"

section \<open>The server: the state and the tool gateway\<close>

text \<open>
  The module-level state of \<^verbatim>\<open>server.py\<close>: the infrastructure, and the policy engine's
  current mode and set of unhealthy services. The policy document never changes and
  stays a parameter.
\<close>

record server_state =
  infra :: cloud_infrastructure
  current_mode :: string
  unhealthy_services :: "string set"

definition initial_state :: server_state where
  "initial_state =
     \<lparr>infra = initial_infrastructure, current_mode = ''NORMAL'', unhealthy_services = {}\<rparr>"

text \<open>\<^verbatim>\<open>register_unhealthy_service\<close> and \<^verbatim>\<open>mark_service_healthy\<close>.\<close>

definition register_unhealthy_service :: "string \<Rightarrow> server_state \<Rightarrow> server_state" where
  "register_unhealthy_service service_name st =
     st\<lparr>unhealthy_services := insert service_name (unhealthy_services st)\<rparr>"

definition mark_service_healthy :: "string \<Rightarrow> server_state \<Rightarrow> server_state" where
  "mark_service_healthy service_name st =
     st\<lparr>unhealthy_services := unhealthy_services st - {service_name}\<rparr>"

text \<open>\<^verbatim>\<open>set_mode\<close>: a mode the policy does not declare is refused (HTTP 400).\<close>

definition set_mode ::
  "policy_doc \<Rightarrow> string \<Rightarrow> server_state \<Rightarrow> server_state \<times> (exn + string)" where
  "set_mode pol mode st =
     (if mode \<notin> set (map fst (modes pol)) then (st, Inl (HTTPException 400))
      else (st\<lparr>current_mode := mode\<rparr>, Inr mode))"

text \<open>
  The two branches that \<^verbatim>\<open>_update_unhealthy_services\<close> applies to one service and its
  health: register when critical or degraded, mark healthy when healthy, nothing
  otherwise.
\<close>

definition track_health :: "string \<Rightarrow> string \<Rightarrow> server_state \<Rightarrow> server_state" where
  "track_health svc_name health st =
     (if health \<in> set [''critical'', ''degraded''] then register_unhealthy_service svc_name st
      else if health = ''healthy'' then mark_service_healthy svc_name st
      else st)"

text \<open>
  \<^verbatim>\<open>_update_unhealthy_services\<close>. With \<^verbatim>\<open>None\<close> it walks the whole health map; with a
  name it looks the health up, defaulting to \<^verbatim>\<open>"unknown"\<close>. The body is wrapped in
  \<^verbatim>\<open>try/except Exception\<close>, so an unhashable name changes nothing.
\<close>

fun update_unhealthy_services :: "pyval \<Rightarrow> server_state \<Rightarrow> server_state" where
  "update_unhealthy_services VNone st =
     fold (\<lambda>(svc_name, health). track_health svc_name health) (services (infra st)) st"
| "update_unhealthy_services (VStr s) st =
     track_health s (case map_of (services (infra st)) s of None \<Rightarrow> ''unknown'' | Some h \<Rightarrow> h)
       st"
| "update_unhealthy_services v st = st"

text \<open>
  Requests and responses of \<^verbatim>\<open>/tools/execute\<close>. The \<^verbatim>\<open>context\<close> of a request is never
  read and is left out; so is \<^verbatim>\<open>blocked_reason\<close>, the display message of the
  exception. The \<^verbatim>\<open>error\<close> string is kept as its two forms,
  \<^verbatim>\<open>"Policy violation: {reason}"\<close> and \<^verbatim>\<open>"Execution error: {exception}"\<close>.
\<close>

record tool_request =
  tool_name :: string
  arguments :: pydict
  execution_mode :: string

datatype response_result = ToolOutput tool_result | ShadowReport impact_report

datatype response_error = PolicyViolation string | ExecutionError exn

record tool_response =
  success :: bool
  result :: "response_result option"
  error :: "response_error option"
  policy_violation :: bool

text \<open>The upper case and the lower case of an ASCII character.\<close>

definition upper_char :: "char \<Rightarrow> char" where
  "upper_char ch =
     (case map_of (zip ''abcdefghijklmnopqrstuvwxyz'' ''ABCDEFGHIJKLMNOPQRSTUVWXYZ'') ch of
        None \<Rightarrow> ch
      | Some u \<Rightarrow> u)"

text \<open>
  \<^verbatim>\<open>str.upper\<close>, as far as the comparison of its result with \<^verbatim>\<open>"REAL"\<close> and
  \<^verbatim>\<open>"SHADOW"\<close> goes. A string is the list of its UTF-8 bytes. Python's \<^verbatim>\<open>upper\<close> follows
  Unicode: besides the ASCII letters it maps the long s, U+017F (the bytes C5 BF), to
  \<open>S\<close>, so that a request may spell the shadow mode with it. Every other character
  outside ASCII is left as it is here; its Python upper case holds a character outside
  ASCII or a letter that is in neither word (or, for U+00DF, a double \<open>S\<close>), so the
  result is neither word in Python as it is here.
\<close>

fun str_upper :: "string \<Rightarrow> string" where
  "str_upper [] = []"
| "str_upper [c] = [upper_char c]"
| "str_upper (c # d # cs) =
     (if c = CHR 0xC5 \<and> d = CHR 0xBF then CHR ''S'' # str_upper cs
      else upper_char c # str_upper (d # cs))"

definition lower_char :: "char \<Rightarrow> char" where
  "lower_char ch =
     (case map_of (zip ''ABCDEFGHIJKLMNOPQRSTUVWXYZ'' ''abcdefghijklmnopqrstuvwxyz'') ch of
        None \<Rightarrow> ch
      | Some l \<Rightarrow> l)"

text \<open>\<^verbatim>\<open>needle in hay\<close> for strings.\<close>

fun is_prefix :: "string \<Rightarrow> string \<Rightarrow> bool" where
  "is_prefix [] ys = True"
| "is_prefix (x # xs) [] = False"
| "is_prefix (x # xs) (y # ys) = (x = y \<and> is_prefix xs ys)"

fun contains :: "string \<Rightarrow> string \<Rightarrow> bool" where
  "contains needle [] = (needle = [])"
| "contains needle (y # ys) = (is_prefix needle (y # ys) \<or> contains needle ys)"

text \<open>
  \<^verbatim>\<open>"success" in str(result).lower()\<close> for the result of a restart. A successful
  restart has \<^verbatim>\<open>'status': 'success'\<close>. The not-found result has no such entry, and its
  fixed texts and the five service names do not contain the word; its message quotes the
  requested name, so the test holds exactly when that name contains the word in some
  letter case. A name that is not a string prints as a number, \<^verbatim>\<open>None\<close>, \<^verbatim>\<open>True\<close> or
  \<^verbatim>\<open>False\<close>.
\<close>

fun mentions_success :: "tool_result \<Rightarrow> bool" where
  "mentions_success (RestartSuccess s old) = True"
| "mentions_success (ServiceNotFound (VStr s) ks) = contains ''success'' (map lower_char s)"
| "mentions_success r = False"

text \<open>
  The reconciliation after a restart whose result mentions success:
  \<^verbatim>\<open>if service_name:\<close> then \<^verbatim>\<open>mark_service_healthy\<close> and \<^verbatim>\<open>set_service_health\<close>. Both
  ignore a value that is no member; \<^verbatim>\<open>set.discard\<close> of an unhashable value raises
  \<^verbatim>\<open>TypeError\<close>.
\<close>

fun reconcile_restart :: "pyval \<Rightarrow> server_state \<Rightarrow> exn + server_state" where
  "reconcile_restart (VStr s) st =
     Inr (if s \<noteq> [] then
            (mark_service_healthy s st)
              \<lparr>infra := set_service_health s ''healthy'' (infra st)\<rparr>
          else st)"
| "reconcile_restart (VList xs) st = (if xs \<noteq> [] then Inl TypeError else Inr st)"
| "reconcile_restart (VDict kvs) st = (if kvs \<noteq> [] then Inl TypeError else Inr st)"
| "reconcile_restart v st = Inr st"

text \<open>
  \<^verbatim>\<open>execute_tool\<close>, the handler of \<^verbatim>\<open>/tools/execute\<close>. The result pairs the state after
  the request with the response, or with the exception that left the handler (an HTTP
  error for the caller). A status check runs at once, outside any \<^verbatim>\<open>try\<close>. Every other
  tool is validated first; only \<^verbatim>\<open>PolicyViolationError\<close> is caught there. The real
  execution is inside \<^verbatim>\<open>try/except Exception\<close>.
\<close>

definition execute_tool ::
  "policy_doc \<Rightarrow> tool_request \<Rightarrow> server_state \<Rightarrow> server_state \<times> (exn + tool_response)" where
  "execute_tool pol req st =
     (let tool = tool_name req; args = arguments req in
      if tool = ''get_service_status'' then
        (case execute_tool_function tool args (infra st) of
           (c', Inl e) \<Rightarrow> (st\<lparr>infra := c'\<rparr>, Inl e)
         | (c', Inr r) \<Rightarrow>
             (update_unhealthy_services (dict_get args ''service_name'') (st\<lparr>infra := c'\<rparr>),
              Inr \<lparr>success = True, result = Some (ToolOutput r), error = None,
                   policy_violation = False\<rparr>))
      else
        (case validate pol (current_mode st) (unhealthy_services st) tool args of
           Inl (PolicyViolationError t m reason) \<Rightarrow>
             (st, Inr \<lparr>success = False, result = None,
                      error = Some (PolicyViolation reason), policy_violation = True\<rparr>)
         | Inl e \<Rightarrow> (st, Inl e)
         | Inr ok \<Rightarrow>
             (let mode = str_upper
                           (if execution_mode req = [] then ''REAL'' else execution_mode req)
              in
              if mode \<notin> {''REAL'', ''SHADOW''} then (st, Inl (HTTPException 400))
              else if mode = ''SHADOW'' then
                (case simulate tool args (infra st) of
                   Inl e \<Rightarrow> (st, Inl e)
                 | Inr impact \<Rightarrow>
                     (st, Inr \<lparr>success = True, result = Some (ShadowReport impact),
                              error = None, policy_violation = False\<rparr>))
              else
                (case execute_tool_function tool args (infra st) of
                   (c', Inl e) \<Rightarrow>
                     (st\<lparr>infra := c'\<rparr>,
                      Inr \<lparr>success = False, result = None,
                           error = Some (ExecutionError e), policy_violation = False\<rparr>)
                 | (c', Inr r) \<Rightarrow>
                     (if tool = ''restart_service'' \<and> mentions_success r then
                        (case reconcile_restart (dict_get args ''service_name'')
                                (st\<lparr>infra := c'\<rparr>) of
                           Inl e \<Rightarrow>
                             (st\<lparr>infra := c'\<rparr>,
                              Inr \<lparr>success = False, result = None,
                                   error = Some (ExecutionError e),
                                   policy_violation = False\<rparr>)
                         | Inr st' \<Rightarrow>
                             (st', Inr \<lparr>success = True, result = Some (ToolOutput r),
                                       error = None, policy_violation = False\<rparr>))
                      else
                        (st\<lparr>infra := c'\<rparr>,
                         Inr \<lparr>success = True, result = Some (ToolOutput r), error = None,
                              policy_violation = False\<rparr>))))))"

text \<open>
  \<^verbatim>\<open>simulate_incident\<close>, the handler of \<^verbatim>\<open>/infrastructure/simulate-incident\<close>. The
  response reads \<^verbatim>\<open>cloud_infra.services[service]\<close>, which raises \<^verbatim>\<open>KeyError\<close> for a
  service that is no key of the health map, after the state has been written. The
  response is modelled by the two values it reports.
\<close>

definition simulate_incident ::
  "string \<Rightarrow> string \<Rightarrow> server_state \<Rightarrow> server_state \<times> (exn + string \<times> bool)" where
  "simulate_incident service status st =
     (let st1 = st\<lparr>infra := set_service_health service status (infra st)\<rparr>;
          st2 = (if status \<in> set [''critical'', ''degraded'']
                 then register_unhealthy_service service st1
                 else mark_service_healthy service st1)
      in case map_of (services (infra st2)) service of
           None \<Rightarrow> (st2, Inl (KeyError service))
         | Some h \<Rightarrow> (st2, Inr (h, service \<in> unhealthy_services st2)))"

text \<open>\<^verbatim>\<open>fix_service\<close>, the handler of \<^verbatim>\<open>/infrastructure/fix-service\<close>.\<close>

definition fix_service :: "string \<Rightarrow> server_state \<Rightarrow> server_state" where
  "fix_service service st =
     mark_service_healthy service
       (st\<lparr>infra := set_service_health service ''healthy'' (infra st)\<rparr>)"

text \<open>
  The set that the health map determines: the services whose health is critical or
  degraded. The registry is in step with the health map when the tracked set is this
  set.
\<close>

definition in_sync :: "server_state \<Rightarrow> bool" where
  "in_sync st \<longleftrightarrow> unhealthy_services st = set (get_unhealthy_services (infra st))"

text \<open>The health values that the code takes for unhealthy.\<close>

definition bad_health :: "string \<Rightarrow> bool" where
  "bad_health h \<longleftrightarrow> h \<in> set [''critical'', ''degraded'']"

text \<open>
  The states the server reaches from its initial state when every simulated incident
  names a service of the health map.
\<close>

inductive reachable :: "policy_doc \<Rightarrow> server_state \<Rightarrow> bool" for pol :: policy_doc where
  reach_initial: "reachable pol initial_state"
| reach_set_mode: "reachable pol st \<Longrightarrow> reachable pol (fst (set_mode pol mode st))"
| reach_execute_tool: "reachable pol st \<Longrightarrow> reachable pol (fst (execute_tool pol req st))"
| reach_fix_service: "reachable pol st \<Longrightarrow> reachable pol (fix_service service st)"
| reach_simulate_incident:
    "reachable pol st \<Longrightarrow> service \<in> set (map fst (services (infra st))) \<Longrightarrow>
       reachable pol (fst (simulate_incident service status st))"

text \<open>
  The execution mode of a request after \<^verbatim>\<open>(request.execution_mode or "REAL").upper()\<close>
  is \<^verbatim>\<open>REAL\<close>.
\<close>

definition real_execution :: "tool_request \<Rightarrow> bool" where
  "real_execution req \<longleftrightarrow>
     str_upper (if execution_mode req = [] then ''REAL'' else execution_mode req) = ''REAL''"

section \<open>Concrete policy documents, states and requests\<close>

text \<open>
  Two policy documents of the shape the engine reads, used as concrete inputs. The
  first has the two modes the code names, read-only tools in \<open>NORMAL\<close> and the two
  active tools added in \<open>EMERGENCY\<close>, with the service restriction enabled there.
  The second adds a mode \<open>MAINTENANCE\<close> that carries the same flag.
\<close>

definition normal_mode :: mode_policy where
  "normal_mode =
     \<lparr>description = ''Read-only monitoring'',
      allowed_tools = [''get_service_status'', ''read_logs'', ''list_services''],
      blocked_tools = [''restart_service'', ''scale_fleet'', ''delete_database''],
      rationale = ''Read-only in NORMAL mode'',
      service_restrictions = None\<rparr>"

definition emergency_mode :: mode_policy where
  "emergency_mode =
     \<lparr>description = ''Incident response'',
      allowed_tools = [''get_service_status'', ''read_logs'', ''list_services'',
                       ''restart_service'', ''scale_fleet''],
      blocked_tools = [''delete_database''],
      rationale = ''Destructive operations are never allowed'',
      service_restrictions = Some [(''enabled'', VBool True)]\<rparr>"

definition sample_policy :: policy_doc where
  "sample_policy =
     \<lparr>always_blocked = [''delete_database''],
      modes = [(''NORMAL'', normal_mode), (''EMERGENCY'', emergency_mode)]\<rparr>"

definition maintenance_policy :: policy_doc where
  "maintenance_policy =
     \<lparr>always_blocked = [''delete_database''],
      modes = [(''NORMAL'', normal_mode), (''EMERGENCY'', emergency_mode),
               (''MAINTENANCE'', emergency_mode)]\<rparr>"

text \<open>
  A policy whose only mode whitelists the status check alone, and a policy that
  whitelists a name that is no tool.
\<close>

definition status_only_policy :: policy_doc where
  "status_only_policy =
     \<lparr>always_blocked = [''delete_database''],
      modes = [(''NORMAL'', normal_mode\<lparr>allowed_tools := [''get_service_status'']\<rparr>)]\<rparr>"

definition typo_policy :: policy_doc where
  "typo_policy =
     \<lparr>always_blocked = [''delete_database''],
      modes = [(''NORMAL'',
                normal_mode\<lparr>allowed_tools := [''get_service_status'', ''drain_node'']\<rparr>)]\<rparr>"

text \<open>
  The state after switching the mode to \<open>EMERGENCY\<close> and simulating a critical
  incident on \<open>web-server\<close>, and a restart request.
\<close>

definition incident_state :: server_state where
  "incident_state =
     fst (simulate_incident ''web-server'' ''critical''
            (fst (set_mode sample_policy ''EMERGENCY'' initial_state)))"

definition restart_web :: tool_request where
  "restart_web =
     \<lparr>tool_name = ''restart_service'', arguments = [(''service_name'', VStr ''web-server'')],
      execution_mode = ''REAL''\<rparr>"

lemmas sample_defs =
  sample_policy_def normal_mode_def emergency_mode_def
  passes_static_checks_def restriction_enabled_def dict_get_def dict_get_default_def
  is_modification_tool_def

lemmas eval_defs =
  execute_tool_def validate_def execute_tool_function_def tool_map_def binds_def
  as_invalid_arguments_def restart_service_def get_service_status_def read_logs_def
  list_services_def scale_fleet_def delete_database_def log_action_def
  set_service_health_def get_unhealthy_services_def simulate_def simulate_incident_def
  set_mode_def fix_service_def register_unhealthy_service_def mark_service_healthy_def
  track_health_def initial_state_def initial_infrastructure_def upper_char_def
  lower_char_def slice_to_def Let_def

section \<open>Properties of the policy decision\<close>

text \<open>
  C1. A tool named in the policy's global always-blocked list is denied with the reason
  ``Globally blocked'', whatever the current mode, the unhealthy set and the arguments
  are, and whatever the mode's own lists say: the check comes first.
\<close>

theorem validate_globally_blocked:
  "tool \<in> set (always_blocked pol) \<Longrightarrow>
     validate pol cur_mode unhealthy tool args =
       Inl (PolicyViolationError tool cur_mode ''Globally blocked'')"
  by (simp add: validate_def)

theorem validate_globally_blocked_witness:
  "''delete_database'' \<in> set (always_blocked sample_policy) \<and>
   validate sample_policy ''EMERGENCY'' {''database''} ''delete_database''
       [(''service_name'', VStr ''database'')] =
     Inl (PolicyViolationError ''delete_database'' ''EMERGENCY'' ''Globally blocked'')"
  using validate_globally_blocked
          [of "''delete_database''" sample_policy "''EMERGENCY''" "{''database''}"
              "[(''service_name'', VStr ''database'')]"]
  by (simp add: sample_defs)

text \<open>
  C2, as stated, fails for the empty service name: the target-presence check
  (\<^verbatim>\<open>if not service_name\<close>) sits between the whitelist check and the health gate, and
  the empty string is falsy. In \<open>EMERGENCY\<close> mode with the restriction enabled, a restart
  request that passes the three static checks and names the empty string, which is not
  in the unhealthy set, is denied with the reason ``Missing service target'', not with
  ``Target service is not unhealthy''.
\<close>

theorem restart_empty_target_counterexample:
  "passes_static_checks sample_policy ''EMERGENCY'' ''restart_service'' \<and>
   restriction_enabled sample_policy ''EMERGENCY'' \<and>
   [] \<notin> ({} :: string set) \<and>
   validate sample_policy ''EMERGENCY'' {} ''restart_service''
       [(''service_name'', VStr [])] =
     Inl (PolicyViolationError ''restart_service'' ''EMERGENCY'' ''Missing service target'') \<and>
   validate sample_policy ''EMERGENCY'' {} ''restart_service''
       [(''service_name'', VStr [])] \<noteq>
     Inl (PolicyViolationError ''restart_service'' ''EMERGENCY''
            ''Target service is not unhealthy'')"
  by (simp add: validate_def sample_defs)

text \<open>
  C2, amended: in \<open>EMERGENCY\<close> mode with \<^verbatim>\<open>service_restrictions.enabled\<close> true, when
  \<^verbatim>\<open>restart_service\<close> passes the global-block, mode-block and whitelist checks and the
  \<^verbatim>\<open>service_name\<close> argument is a non-empty string \<open>R\<close>, the decision is Allow exactly
  when \<open>R\<close> is in the unhealthy set, and otherwise a denial with the reason
  ``Target service is not unhealthy''.
\<close>

theorem restart_allowed_iff_unhealthy:
  assumes "passes_static_checks pol ''EMERGENCY'' ''restart_service''"
    and "restriction_enabled pol ''EMERGENCY''"
    and "map_of args ''service_name'' = Some (VStr R)"
    and "R \<noteq> []"
  shows "validate pol ''EMERGENCY'' unhealthy ''restart_service'' args =
           (if R \<in> unhealthy then Inr True
            else Inl (PolicyViolationError ''restart_service'' ''EMERGENCY''
                        ''Target service is not unhealthy''))"
  using assms
  by (auto simp: validate_def passes_static_checks_def restriction_enabled_def
        dict_get_def is_modification_tool_def split: option.splits)

theorem restart_allowed_iff_unhealthy_witness:
  "validate sample_policy ''EMERGENCY'' {''web-server''} ''restart_service''
       [(''service_name'', VStr ''web-server'')] = Inr True \<and>
   validate sample_policy ''EMERGENCY'' {''web-server''} ''restart_service''
       [(''service_name'', VStr ''database'')] =
     Inl (PolicyViolationError ''restart_service'' ''EMERGENCY''
            ''Target service is not unhealthy'')"
proof -
  have p: "passes_static_checks sample_policy ''EMERGENCY'' ''restart_service''"
    by (simp add: sample_defs)
  have e: "restriction_enabled sample_policy ''EMERGENCY''"
    by (simp add: sample_defs)
  have a: "map_of [(''service_name'', VStr ''web-server'')] ''service_name'' =
             Some (VStr ''web-server'')"
    by simp
  have b: "map_of [(''service_name'', VStr ''database'')] ''service_name'' =
             Some (VStr ''database'')"
    by simp
  show ?thesis
    using restart_allowed_iff_unhealthy [OF p e a, of "{''web-server''}"]
      restart_allowed_iff_unhealthy [OF p e b, of "{''web-server''}"]
    by simp
qed

text \<open>
  C4, as stated, fails: the health gate is guarded by
  \<^verbatim>\<open>if self.current_mode == "EMERGENCY"\<close>, so a mode of another name that carries
  \<^verbatim>\<open>service_restrictions.enabled\<close> is not gated. In the mode \<open>MAINTENANCE\<close>, which has
  the flag set, a whitelisted restart of a service that is not in the unhealthy set is
  allowed.
\<close>

theorem gate_other_mode_counterexample:
  "passes_static_checks maintenance_policy ''MAINTENANCE'' ''restart_service'' \<and>
   restriction_enabled maintenance_policy ''MAINTENANCE'' \<and>
   is_modification_tool ''restart_service'' \<and>
   ''database'' \<notin> {''web-server''} \<and>
   validate maintenance_policy ''MAINTENANCE'' {''web-server''} ''restart_service''
       [(''service_name'', VStr ''database'')] = Inr True"
  by (simp add: validate_def maintenance_policy_def sample_defs)

text \<open>
  C4, amended: the health gate is enforced exactly when the current mode is the one
  named \<open>EMERGENCY\<close> and that mode's policy has \<^verbatim>\<open>service_restrictions.enabled\<close> true.
  For a mutation-class tool that passes the global-block, mode-block and whitelist
  checks and whose \<^verbatim>\<open>service_name\<close> argument is a non-empty string \<open>R\<close>, the decision is
  a denial with the reason ``Target service is not unhealthy'' if the mode is
  \<open>EMERGENCY\<close>, the flag is set and \<open>R\<close> is not in the unhealthy set; in every other
  case, also in another mode that carries the flag, it is Allow.
\<close>

theorem health_gate_exactly_emergency:
  assumes "passes_static_checks pol cur_mode tool"
    and "is_modification_tool tool"
    and "map_of args ''service_name'' = Some (VStr R)"
    and "R \<noteq> []"
  shows "validate pol cur_mode unhealthy tool args =
           (if cur_mode = ''EMERGENCY'' \<and> restriction_enabled pol cur_mode \<and>
               R \<notin> unhealthy
            then Inl (PolicyViolationError tool cur_mode ''Target service is not unhealthy'')
            else Inr True)"
  using assms
  by (auto simp: validate_def passes_static_checks_def restriction_enabled_def
        dict_get_def split: option.splits)

theorem health_gate_exactly_emergency_witness:
  "validate maintenance_policy ''EMERGENCY'' {''web-server''} ''restart_service''
       [(''service_name'', VStr ''database'')] =
     Inl (PolicyViolationError ''restart_service'' ''EMERGENCY''
            ''Target service is not unhealthy'') \<and>
   validate maintenance_policy ''MAINTENANCE'' {''web-server''} ''restart_service''
       [(''service_name'', VStr ''database'')] = Inr True"
proof -
  have p: "passes_static_checks maintenance_policy ''EMERGENCY'' ''restart_service''"
    by (simp add: maintenance_policy_def sample_defs)
  have q: "passes_static_checks maintenance_policy ''MAINTENANCE'' ''restart_service''"
    by (simp add: maintenance_policy_def sample_defs)
  have m: "is_modification_tool ''restart_service''"
    by (simp add: sample_defs)
  have a: "map_of [(''service_name'', VStr ''database'')] ''service_name'' =
             Some (VStr ''database'')"
    by simp
  have e: "restriction_enabled maintenance_policy ''EMERGENCY''"
    by (simp add: maintenance_policy_def sample_defs)
  show ?thesis
    using health_gate_exactly_emergency [OF p m a, of "{''web-server''}"]
      health_gate_exactly_emergency [OF q m a, of "{''web-server''}"] e
    by simp
qed

text \<open>
  C5 does not hold of the code: \<^verbatim>\<open>_is_modification_tool\<close> lists \<^verbatim>\<open>scale_fleet\<close>, so
  the target-presence check applies to it, although the tool takes only \<^verbatim>\<open>count\<close>.
  A fleet-wide scale request that passes the global-block, mode-block and whitelist
  checks is denied with the reason ``Missing service target''.
\<close>

theorem scale_fleet_count_only_denied:
  "passes_static_checks sample_policy ''EMERGENCY'' ''scale_fleet'' \<and>
   validate sample_policy ''EMERGENCY'' {''web-server''} ''scale_fleet''
       [(''count'', VInt 5)] =
     Inl (PolicyViolationError ''scale_fleet'' ''EMERGENCY'' ''Missing service target'')"
  by (simp add: validate_def sample_defs)

text \<open>The same for every policy, mode and unhealthy set: without a target it is never allowed.\<close>

lemma scale_fleet_without_target_never_allowed:
  "map_of args ''service_name'' = None \<Longrightarrow>
     validate pol cur_mode unhealthy ''scale_fleet'' args \<noteq> Inr True"
  by (simp add: validate_def dict_get_def is_modification_tool_def split: option.splits)

section \<open>Lemmas about the policy decision\<close>

text \<open>The decision either allows, denies, or fails on an undeclared mode or an unhashable target.\<close>

lemma validate_cases:
  "validate pol m U tool args = Inr True \<or>
   (\<exists>reason. validate pol m U tool args = Inl (PolicyViolationError tool m reason)) \<or>
   validate pol m U tool args = Inl (KeyError m) \<or>
   validate pol m U tool args = Inl TypeError"
  apply (simp add: validate_def Let_def split: option.splits sum.splits bool.splits)
  apply (cases "dict_get args ''service_name''")
  apply auto
  done

lemma validate_allowed_iff_static:
  "\<not> is_modification_tool tool \<Longrightarrow>
     validate pol m U tool args = Inr True \<longleftrightarrow> passes_static_checks pol m tool"
  by (auto simp: validate_def passes_static_checks_def split: option.splits)

lemma unknown_not_modification: "tool \<notin> set tool_map \<Longrightarrow> \<not> is_modification_tool tool"
  by (auto simp: tool_map_def is_modification_tool_def)

lemma read_tools_not_modification:
  "tool \<in> {''read_logs'', ''list_services''} \<Longrightarrow> \<not> is_modification_tool tool"
  by (auto simp: is_modification_tool_def)

lemma validate_allowed_truthy_target:
  "validate pol m U tool args = Inr ok \<Longrightarrow> is_modification_tool tool \<Longrightarrow>
     truthy (dict_get args ''service_name'') \<and> passes_static_checks pol m tool"
  by (simp add: validate_def passes_static_checks_def Let_def split: option.splits if_splits)

lemma validate_target_gate:
  assumes "passes_static_checks pol cur_mode tool"
    and "is_modification_tool tool"
    and "map_of args ''service_name'' = Some (VStr R)"
    and "R \<noteq> []"
  shows "validate pol cur_mode unhealthy tool args =
           (if cur_mode = ''EMERGENCY'' \<and> restriction_enabled pol cur_mode \<and>
               R \<notin> unhealthy
            then Inl (PolicyViolationError tool cur_mode ''Target service is not unhealthy'')
            else Inr True)"
  using assms
  by (auto simp: validate_def passes_static_checks_def restriction_enabled_def
        dict_get_def split: option.splits)

section \<open>Lemmas about the infrastructure and the dispatcher\<close>

lemma services_log_action [simp]: "services (log_action a d c) = services c"
  by (simp add: log_action_def Let_def)

lemma fleet_size_log_action [simp]: "fleet_size (log_action a d c) = fleet_size c"
  by (simp add: log_action_def Let_def)

lemma map_of_set_service_health:
  "map_of (services c) s = Some h \<Longrightarrow>
     map_of (services (set_service_health s status c)) s = Some status"
  by (simp add: set_service_health_def update_conv')

lemma restart_service_success:
  assumes "restart_service v c = (c', Inr (RestartSuccess R old))"
  shows "v = VStr R \<and> map_of (services c') R = Some ''healthy''"
proof (cases v)
  case (VStr s)
  then show ?thesis
    using assms
    by (auto simp: restart_service_def Let_def update_conv' split: option.splits)
qed (use assms in \<open>auto simp: restart_service_def Let_def\<close>)

lemma execute_tool_function_restart:
  "execute_tool_function ''restart_service'' args c =
     (if binds [''service_name''] [] args
      then as_invalid_arguments ''restart_service''
             (restart_service (dict_get args ''service_name'') c)
      else (c, Inl (InvalidArguments ''restart_service'')))"
  by (simp add: execute_tool_function_def tool_map_def)

lemma as_invalid_arguments_Inr:
  "as_invalid_arguments tool r = (c', Inr x) \<longleftrightarrow> r = (c', Inr x)"
  by (cases r rule: prod.exhaust; cases "snd r"; cases "projl (snd r)")
     (auto simp: as_invalid_arguments_def split: exn.splits)

lemma execute_tool_function_restart_success:
  assumes "execute_tool_function ''restart_service'' args c = (c', Inr (RestartSuccess R old))"
  shows "dict_get args ''service_name'' = VStr R \<and> map_of (services c') R = Some ''healthy''"
proof -
  have "restart_service (dict_get args ''service_name'') c = (c', Inr (RestartSuccess R old))"
    using assms
    by (simp add: execute_tool_function_restart as_invalid_arguments_Inr split: if_splits)
  then show ?thesis by (rule restart_service_success)
qed

lemma as_invalid_arguments_services:
  "as_invalid_arguments tool r = (c', x) \<Longrightarrow> c' = fst r"
  by (cases r; cases "snd r"; cases "projl (snd r)")
     (auto simp: as_invalid_arguments_def split: exn.splits)

lemma get_service_status_services:
  "services (fst (get_service_status v c)) = services c"
  by (cases v)
     (auto simp: get_service_status_def Let_def split: option.splits sum.splits)

lemma execute_tool_function_status_services:
  assumes "execute_tool_function ''get_service_status'' args c = (c', x)"
  shows "services c' = services c"
  using assms
  by (auto simp: execute_tool_function_def tool_map_def get_service_status_services
        split: if_splits dest!: as_invalid_arguments_services)

section \<open>Lemmas about the health registry\<close>

lemma track_health_fields [simp]:
  "infra (track_health n h st) = infra st"
  "current_mode (track_health n h st) = current_mode st"
  "unhealthy_services (track_health n h st) =
     (if h \<in> set [''critical'', ''degraded''] then insert n (unhealthy_services st)
      else if h = ''healthy'' then unhealthy_services st - {n}
      else unhealthy_services st)"
  by (simp_all add: track_health_def register_unhealthy_service_def mark_service_healthy_def)

lemma fold_track_health_fields [simp]:
  "infra (fold (\<lambda>(n, h). track_health n h) svcs st) = infra st"
  "current_mode (fold (\<lambda>(n, h). track_health n h) svcs st) = current_mode st"
  by (induction svcs arbitrary: st) (simp_all add: split_beta)

lemma fold_track_health_member:
  assumes "distinct (map fst svcs)" and "map_of svcs s = Some h"
  shows "s \<in> unhealthy_services (fold (\<lambda>(n, h). track_health n h) svcs st) \<longleftrightarrow>
           h \<in> set [''critical'', ''degraded''] \<or> (h \<noteq> ''healthy'' \<and> s \<in> unhealthy_services st)"
  using assms
proof (induction svcs arbitrary: st)
  case Nil
  then show ?case by simp
next
  case (Cons p svcs)
  obtain n k where p: "p = (n, k)" by (cases p)
  show ?case
  proof (cases "n = s")
    case True
    have other: "s \<in> unhealthy_services (fold (\<lambda>(n, h). track_health n h) svcs st') \<longleftrightarrow>
                   s \<in> unhealthy_services st'" for st'
      using Cons.prems(1) p True
    proof (induction svcs arbitrary: st')
      case Nil
      then show ?case by simp
    next
      case (Cons q svcs)
      then show ?case by (cases q) (auto simp: split_beta)
    qed
    from Cons.prems p True have "k = h" by simp
    then show ?thesis using p True other by auto
  next
    case False
    with Cons p show ?thesis by (auto simp: split_beta)
  qed
qed

lemma track_health_mode_update:
  "track_health n h (st\<lparr>current_mode := m\<rparr>) = (track_health n h st)\<lparr>current_mode := m\<rparr>"
  by (simp add: track_health_def register_unhealthy_service_def mark_service_healthy_def)

lemma fold_track_health_mode_update:
  "fold (\<lambda>(n, h). track_health n h) svcs (st\<lparr>current_mode := m\<rparr>) =
     (fold (\<lambda>(n, h). track_health n h) svcs st)\<lparr>current_mode := m\<rparr>"
  by (induction svcs arbitrary: st) (simp_all add: split_beta track_health_mode_update)

lemma update_unhealthy_services_mode_update:
  "update_unhealthy_services v (st\<lparr>current_mode := m\<rparr>) =
     (update_unhealthy_services v st)\<lparr>current_mode := m\<rparr>"
  by (cases v) (simp_all add: track_health_mode_update fold_track_health_mode_update)

lemma update_unhealthy_services_member:
  assumes d: "distinct (map fst (services (infra st)))"
    and h: "map_of (services (infra st)) s = Some h"
    and v: "v = VNone \<or> v = VStr s"
  shows "s \<in> unhealthy_services (update_unhealthy_services v st) \<longleftrightarrow>
           h \<in> set [''critical'', ''degraded''] \<or> (h \<noteq> ''healthy'' \<and> s \<in> unhealthy_services st)"
proof (cases "v = VNone")
  case True
  then show ?thesis using fold_track_health_member [OF d h, of st] by simp
next
  case False
  with v have "v = VStr s" by simp
  then show ?thesis using h by simp
qed

section \<open>The paths through the gateway\<close>

text \<open>The status check, and the three outcomes for every other tool.\<close>

lemma execute_tool_status:
  "tool_name req = ''get_service_status'' \<Longrightarrow>
   execute_tool_function ''get_service_status'' (arguments req) (infra st) = (c', x) \<Longrightarrow>
   execute_tool pol req st =
     (case x of
        Inl e \<Rightarrow> (st\<lparr>infra := c'\<rparr>, Inl e)
      | Inr r \<Rightarrow>
          (update_unhealthy_services (dict_get (arguments req) ''service_name'')
             (st\<lparr>infra := c'\<rparr>),
           Inr \<lparr>success = True, result = Some (ToolOutput r), error = None,
                policy_violation = False\<rparr>))"
  by (simp add: execute_tool_def Let_def split: sum.splits)

lemma execute_tool_denied:
  "tool_name req \<noteq> ''get_service_status'' \<Longrightarrow>
   validate pol (current_mode st) (unhealthy_services st) (tool_name req) (arguments req) = Inl e \<Longrightarrow>
   execute_tool pol req st =
     (st, case e of
            PolicyViolationError t m reason \<Rightarrow>
              Inr \<lparr>success = False, result = None, error = Some (PolicyViolation reason),
                   policy_violation = True\<rparr>
          | _ \<Rightarrow> Inl e)"
  by (cases e) (simp_all add: execute_tool_def Let_def)

lemma execute_tool_not_real:
  "tool_name req \<noteq> ''get_service_status'' \<Longrightarrow>
   validate pol (current_mode st) (unhealthy_services st) (tool_name req) (arguments req) = Inr ok \<Longrightarrow>
   \<not> real_execution req \<Longrightarrow>
   execute_tool pol req st =
     (st, if str_upper (execution_mode req) = ''SHADOW''
          then (case simulate (tool_name req) (arguments req) (infra st) of
                  Inl e \<Rightarrow> Inl e
                | Inr impact \<Rightarrow>
                    Inr \<lparr>success = True, result = Some (ShadowReport impact), error = None,
                         policy_violation = False\<rparr>)
          else Inl (HTTPException 400))"
  by (auto simp: execute_tool_def Let_def real_execution_def split: sum.splits)

text \<open>The shadow mode spelled with the long s is the shadow mode.\<close>

lemma str_upper_long_s: "str_upper (CHR 0xC5 # CHR 0xBF # ''hadow'') = ''SHADOW''"
  by (simp add: upper_char_def)

lemma execute_tool_real:
  "tool_name req \<noteq> ''get_service_status'' \<Longrightarrow>
   validate pol (current_mode st) (unhealthy_services st) (tool_name req) (arguments req) = Inr ok \<Longrightarrow>
   real_execution req \<Longrightarrow>
   execute_tool_function (tool_name req) (arguments req) (infra st) = (c', x) \<Longrightarrow>
   execute_tool pol req st =
     (case x of
        Inl e \<Rightarrow>
          (st\<lparr>infra := c'\<rparr>,
           Inr \<lparr>success = False, result = None, error = Some (ExecutionError e),
                policy_violation = False\<rparr>)
      | Inr r \<Rightarrow>
          if tool_name req = ''restart_service'' \<and> mentions_success r then
            (case reconcile_restart (dict_get (arguments req) ''service_name'')
                    (st\<lparr>infra := c'\<rparr>) of
               Inl e \<Rightarrow>
                 (st\<lparr>infra := c'\<rparr>,
                  Inr \<lparr>success = False, result = None, error = Some (ExecutionError e),
                       policy_violation = False\<rparr>)
             | Inr st' \<Rightarrow>
                 (st', Inr \<lparr>success = True, result = Some (ToolOutput r), error = None,
                           policy_violation = False\<rparr>))
          else
            (st\<lparr>infra := c'\<rparr>,
             Inr \<lparr>success = True, result = Some (ToolOutput r), error = None,
                  policy_violation = False\<rparr>))"
  by (simp add: execute_tool_def Let_def real_execution_def split: sum.splits)

lemma execute_tool_restart_success:
  assumes tool: "tool_name req = ''restart_service''"
    and run: "execute_tool pol req st = (st', Inr resp)"
    and res: "result resp = Some (ToolOutput (RestartSuccess R old))"
  shows "passes_static_checks pol (current_mode st) ''restart_service'' \<and>
         R \<noteq> [] \<and>
         unhealthy_services st' = unhealthy_services st - {R} \<and>
         current_mode st' = current_mode st \<and>
         map_of (services (infra st')) R = Some ''healthy''"
proof -
  have ns: "tool_name req \<noteq> ''get_service_status''" using tool by simp
  obtain ok where v: "validate pol (current_mode st) (unhealthy_services st)
                        (tool_name req) (arguments req) = Inr ok"
  proof (cases "validate pol (current_mode st) (unhealthy_services st)
                  (tool_name req) (arguments req)")
    case (Inl e)
    from execute_tool_denied [OF ns Inl] run res show ?thesis
      by (cases e) fastforce+
  next
    case (Inr ok)
    then show ?thesis by (rule that)
  qed
  have m: "is_modification_tool (tool_name req)"
    by (simp add: tool is_modification_tool_def)
  note vt = validate_allowed_truthy_target [OF v m]
  have real: "real_execution req"
  proof (rule ccontr)
    assume nr: "\<not> real_execution req"
    show False
    proof (cases "simulate (tool_name req) (arguments req) (infra st)")
      case (Inl e)
      with execute_tool_not_real [OF ns v nr] run show False
        by (simp split: if_splits)
    next
      case (Inr impact)
      with execute_tool_not_real [OF ns v nr] run res show False
        by (auto split: if_splits)
    qed
  qed
  obtain c' x where etf: "execute_tool_function (tool_name req) (arguments req) (infra st) = (c', x)"
    by (cases "execute_tool_function (tool_name req) (arguments req) (infra st)")
  note eq = execute_tool_real [OF ns v real etf]
  have x: "x = Inr (RestartSuccess R old)"
  proof (cases x)
    case (Inl e)
    with eq run res show ?thesis by fastforce
  next
    case (Inr r)
    show ?thesis
    proof (cases "mentions_success r")
      case True
      show ?thesis
      proof (cases "reconcile_restart (dict_get (arguments req) ''service_name'')
                      (st\<lparr>infra := c'\<rparr>)")
        case (Inl e)
        with eq run res Inr True tool show ?thesis by fastforce
      next
        case r2: (Inr st2)
        with eq run Inr True tool
        have "resp = \<lparr>success = True, result = Some (ToolOutput r), error = None,
                       policy_violation = False\<rparr>"
          by simp
        with res Inr show ?thesis by simp
      qed
    next
      case False
      with eq run Inr
      have "resp = \<lparr>success = True, result = Some (ToolOutput r), error = None,
                     policy_violation = False\<rparr>"
        by simp
      with res Inr show ?thesis by simp
    qed
  qed
  note xs = execute_tool_function_restart_success [OF etf [unfolded tool x]]
  have R: "R \<noteq> []" using vt xs by simp
  have st': "st' = (mark_service_healthy R (st\<lparr>infra := c'\<rparr>))
                     \<lparr>infra := set_service_health R ''healthy'' c'\<rparr>"
    using eq run x xs R tool by simp
  show ?thesis
    using vt R xs tool by (simp add: st' mark_service_healthy_def map_of_set_service_health)
qed

text \<open>
  What the status check does whenever the gateway answers it with a response: the
  response is a success and no policy violation, the outcome is the same under every
  policy document and in every mode, and the observed health is fed back into the
  registry.
\<close>

lemma status_check_outcome:
  assumes tool: "tool_name req = ''get_service_status''"
    and run: "execute_tool pol req st = (st', Inr resp)"
  shows "success resp \<and> \<not> policy_violation resp \<and>
         execute_tool pol' req (st\<lparr>current_mode := m\<rparr>) = (st'\<lparr>current_mode := m\<rparr>, Inr resp) \<and>
         (\<forall>s h. distinct (map fst (services (infra st))) \<and>
                map_of (services (infra st)) s = Some h \<and>
                (dict_get (arguments req) ''service_name'' = VNone \<or>
                 dict_get (arguments req) ''service_name'' = VStr s) \<longrightarrow>
                (s \<in> unhealthy_services st' \<longleftrightarrow>
                   h \<in> set [''critical'', ''degraded''] \<or>
                   (h \<noteq> ''healthy'' \<and> s \<in> unhealthy_services st)))"
proof -
  obtain c' x where etf:
    "execute_tool_function ''get_service_status'' (arguments req) (infra st) = (c', x)"
    by (cases "execute_tool_function ''get_service_status'' (arguments req) (infra st)")
  note eq = execute_tool_status [OF tool etf]
  obtain r where x: "x = Inr r"
    using eq run by (cases x) simp_all
  let ?v = "dict_get (arguments req) ''service_name''"
  have st': "st' = update_unhealthy_services ?v (st\<lparr>infra := c'\<rparr>)"
    and resp: "resp = \<lparr>success = True, result = Some (ToolOutput r), error = None,
                       policy_violation = False\<rparr>"
    using eq run x by simp_all
  have svc: "services c' = services (infra st)"
    using etf by (rule execute_tool_function_status_services)
  have etf': "execute_tool_function ''get_service_status'' (arguments req)
                (infra (st\<lparr>current_mode := m\<rparr>)) = (c', x)"
    using etf by simp
  have tool': "tool_name req = ''get_service_status''" by (rule tool)
  have other: "execute_tool pol' req (st\<lparr>current_mode := m\<rparr>) =
                 (st'\<lparr>current_mode := m\<rparr>, Inr resp)"
  proof -
    have e1: "execute_tool pol' req (st\<lparr>current_mode := m\<rparr>) =
                (update_unhealthy_services ?v ((st\<lparr>current_mode := m\<rparr>)\<lparr>infra := c'\<rparr>),
                 Inr resp)"
      using execute_tool_status [OF tool' etf', of pol'] x by (simp add: resp)
    have e2: "(st\<lparr>current_mode := m\<rparr>)\<lparr>infra := c'\<rparr> =
                (st\<lparr>infra := c'\<rparr>)\<lparr>current_mode := m\<rparr>"
      by simp
    show ?thesis
      unfolding e1 e2 update_unhealthy_services_mode_update st' ..
  qed
  have fb: "s \<in> unhealthy_services st' \<longleftrightarrow>
              h \<in> set [''critical'', ''degraded''] \<or>
              (h \<noteq> ''healthy'' \<and> s \<in> unhealthy_services st)"
    if d: "distinct (map fst (services (infra st)))"
      and h: "map_of (services (infra st)) s = Some h"
      and v: "?v = VNone \<or> ?v = VStr s" for s h
  proof -
    have d': "distinct (map fst (services (infra (st\<lparr>infra := c'\<rparr>))))"
      using d svc by simp
    have h': "map_of (services (infra (st\<lparr>infra := c'\<rparr>))) s = Some h"
      using h svc by simp
    show ?thesis
      using update_unhealthy_services_member [OF d' h' v] by (simp add: st')
  qed
  have ok: "success resp \<and> \<not> policy_violation resp"
    by (simp add: resp)
  from ok other fb show ?thesis by blast
qed

text \<open>
  The other two read tools are under the policy decision: a response to them is a
  policy violation exactly if the tool fails the global-block, mode-block or whitelist
  check of the current mode. They leave the unhealthy set as it was.
\<close>

lemma read_tool_outcome:
  assumes tool: "tool_name req \<in> {''read_logs'', ''list_services''}"
    and run: "execute_tool pol req st = (st', Inr resp)"
  shows "(policy_violation resp \<longleftrightarrow>
            \<not> passes_static_checks pol (current_mode st) (tool_name req)) \<and>
         unhealthy_services st' = unhealthy_services st"
proof -
  have ns: "tool_name req \<noteq> ''get_service_status''" using tool by auto
  have nr: "tool_name req \<noteq> ''restart_service''" using tool by auto
  have nm: "\<not> is_modification_tool (tool_name req)"
    using tool by (rule read_tools_not_modification)
  show ?thesis
  proof (cases "validate pol (current_mode st) (unhealthy_services st) (tool_name req)
                  (arguments req)")
    case (Inl e)
    have np: "\<not> passes_static_checks pol (current_mode st) (tool_name req)"
      using Inl validate_allowed_iff_static [OF nm, of pol "current_mode st"
          "unhealthy_services st" "arguments req"]
      by auto
    from execute_tool_denied [OF ns Inl] run np show ?thesis
      by (cases e) auto
  next
    case (Inr ok)
    have "validate pol (current_mode st) (unhealthy_services st) (tool_name req)
            (arguments req) = Inr True"
      using Inr validate_cases [of pol "current_mode st" "unhealthy_services st"
          "tool_name req" "arguments req"]
      by auto
    then have p: "passes_static_checks pol (current_mode st) (tool_name req)"
      using validate_allowed_iff_static [OF nm] by simp
    show ?thesis
    proof (cases "real_execution req")
      case False
      from execute_tool_not_real [OF ns Inr False] run p show ?thesis
        by (auto split: if_splits sum.splits)
    next
      case True
      obtain c' x where etf:
        "execute_tool_function (tool_name req) (arguments req) (infra st) = (c', x)"
        by (cases "execute_tool_function (tool_name req) (arguments req) (infra st)")
      from execute_tool_real [OF ns Inr True etf] run p nr show ?thesis
        by (cases x) auto
    qed
  qed
qed

lemma incident_state_eq:
  "incident_state =
     \<lparr>infra =
        \<lparr>services = [(''web-server'', ''critical''), (''api-gateway'', ''healthy''),
                     (''database'', ''healthy''), (''cache'', ''healthy''),
                     (''load-balancer'', ''healthy'')],
         fleet_size = 3,
         execution_log =
           [\<lparr>action = ''health_change'',
             details = [(''service'', VStr ''web-server''), (''old_status'', VStr ''healthy''),
                        (''new_status'', VStr ''critical'')]\<rparr>]\<rparr>,
      current_mode = ''EMERGENCY'',
      unhealthy_services = {''web-server''}\<rparr>"
  by (simp add: incident_state_def eval_defs sample_defs)

lemma restart_web_run:
  "\<exists>st' resp. execute_tool sample_policy restart_web incident_state = (st', Inr resp) \<and>
       result resp = Some (ToolOutput (RestartSuccess ''web-server'' ''critical''))"
  by (simp add: incident_state_eq restart_web_def eval_defs sample_defs)

section \<open>Properties of the gateway\<close>

text \<open>
  C6 does not hold of the code for \<^verbatim>\<open>read_logs\<close> and \<^verbatim>\<open>list_services\<close>. The gateway
  runs only \<^verbatim>\<open>get_service_status\<close> ahead of the policy decision
  (\<^verbatim>\<open>if tool_name == "get_service_status"\<close>); the other two read tools are validated
  like any tool, although the docstrings of \<^verbatim>\<open>validate\<close> and of the tools say that read
  operations are always allowed. Under a policy whose current mode does not whitelist
  them, each of the two requests is answered with a policy violation and nothing is
  executed: the state, with its execution log, is the state before.
\<close>

theorem read_tools_denied_by_policy:
  "execute_tool status_only_policy
     \<lparr>tool_name = ''read_logs'', arguments = [], execution_mode = ''REAL''\<rparr> initial_state =
   (initial_state,
    Inr \<lparr>success = False, result = None,
         error = Some (PolicyViolation ''Not in allowed tools list''),
         policy_violation = True\<rparr>) \<and>
   execute_tool status_only_policy
     \<lparr>tool_name = ''list_services'', arguments = [], execution_mode = ''REAL''\<rparr>
     initial_state =
   (initial_state,
    Inr \<lparr>success = False, result = None,
         error = Some (PolicyViolation ''Not in allowed tools list''),
         policy_violation = True\<rparr>)"
  by (simp add: execute_tool_def validate_def initial_state_def status_only_policy_def
        sample_defs)

text \<open>
  C7, as stated, fails: the policy decision comes before the dispatcher, and its
  whitelist check denies a name that the current mode does not list. An unknown tool
  is reported as a policy violation.
\<close>

theorem unknown_tool_counterexample:
  "''format_disk'' \<notin> set tool_map \<and>
   execute_tool sample_policy
     \<lparr>tool_name = ''format_disk'', arguments = [], execution_mode = ''REAL''\<rparr> initial_state =
   (initial_state,
    Inr \<lparr>success = False, result = None,
         error = Some (PolicyViolation ''Not in allowed tools list''),
         policy_violation = True\<rparr>)"
  by (simp add: execute_tool_def validate_def initial_state_def tool_map_def sample_defs)

text \<open>
  C7, amended. For a request naming a tool that is not in the tool catalog, in every
  state and for every argument map: if the name passes the global-block, mode-block and
  whitelist checks of the current mode and the execution mode is \<open>REAL\<close>, the request is
  reported as an execution error (\<open>success = False\<close>, \<open>policy_violation = False\<close>, the
  error ``Unknown tool''); if the name fails one of these checks in a mode that the
  policy declares, it is reported as a policy violation. The state is unchanged in
  both cases.
\<close>

theorem unknown_tool_report:
  assumes "tool_name req \<notin> set tool_map"
  shows "(passes_static_checks pol (current_mode st) (tool_name req) \<and> real_execution req \<longrightarrow>
            execute_tool pol req st =
              (st, Inr \<lparr>success = False, result = None,
                       error = Some (ExecutionError (UnknownTool (tool_name req))),
                       policy_violation = False\<rparr>)) \<and>
         (\<not> passes_static_checks pol (current_mode st) (tool_name req) \<and>
          current_mode st \<in> set (map fst (modes pol)) \<longrightarrow>
            (\<exists>reason. execute_tool pol req st =
              (st, Inr \<lparr>success = False, result = None,
                       error = Some (PolicyViolation reason),
                       policy_violation = True\<rparr>)))"
proof -
  have nm: "\<not> is_modification_tool (tool_name req)"
    using assms by (rule unknown_not_modification)
  have ns: "tool_name req \<noteq> ''get_service_status''"
    using assms by (auto simp: tool_map_def)
  have a: "execute_tool pol req st =
              (st, Inr \<lparr>success = False, result = None,
                       error = Some (ExecutionError (UnknownTool (tool_name req))),
                       policy_violation = False\<rparr>)"
    if p: "passes_static_checks pol (current_mode st) (tool_name req)"
      and r: "real_execution req"
  proof -
    have v: "validate pol (current_mode st) (unhealthy_services st) (tool_name req)
               (arguments req) = Inr True"
      using p nm by (simp add: validate_allowed_iff_static)
    have x: "execute_tool_function (tool_name req) (arguments req) (infra st) =
               (infra st, Inl (UnknownTool (tool_name req)))"
      using assms by (simp add: execute_tool_function_def)
    show ?thesis
      using v x ns r by (simp add: execute_tool_def Let_def real_execution_def)
  qed
  have b: "\<exists>reason. execute_tool pol req st =
              (st, Inr \<lparr>success = False, result = None,
                       error = Some (PolicyViolation reason),
                       policy_violation = True\<rparr>)"
    if p: "\<not> passes_static_checks pol (current_mode st) (tool_name req)"
      and d: "current_mode st \<in> set (map fst (modes pol))"
  proof -
    obtain mp where mp: "map_of (modes pol) (current_mode st) = Some mp"
      using d by (metis map_of_eq_None_iff not_Some_eq set_map)
    have "\<exists>reason. validate pol (current_mode st) (unhealthy_services st) (tool_name req)
               (arguments req) = Inl (PolicyViolationError (tool_name req) (current_mode st) reason)"
      using p nm mp by (auto simp: validate_def passes_static_checks_def)
    then show ?thesis using ns by (auto simp: execute_tool_def Let_def)
  qed
  show ?thesis using a b by blast
qed

theorem unknown_tool_report_witness:
  "execute_tool typo_policy
     \<lparr>tool_name = ''drain_node'', arguments = [], execution_mode = ''real''\<rparr> initial_state =
     (initial_state,
      Inr \<lparr>success = False, result = None,
           error = Some (ExecutionError (UnknownTool ''drain_node'')),
           policy_violation = False\<rparr>) \<and>
   (\<exists>reason.
      execute_tool sample_policy
        \<lparr>tool_name = ''drain_node'', arguments = [], execution_mode = ''real''\<rparr>
        initial_state =
      (initial_state,
       Inr \<lparr>success = False, result = None, error = Some (PolicyViolation reason),
            policy_violation = True\<rparr>))"
proof -
  let ?req = "\<lparr>tool_name = ''drain_node'', arguments = [], execution_mode = ''real''\<rparr>"
  have u: "tool_name ?req \<notin> set tool_map"
    by (simp add: tool_map_def)
  have p: "passes_static_checks typo_policy (current_mode initial_state) (tool_name ?req)"
    by (simp add: typo_policy_def initial_state_def sample_defs)
  have r: "real_execution ?req"
    by (simp add: real_execution_def upper_char_def)
  have n: "\<not> passes_static_checks sample_policy (current_mode initial_state) (tool_name ?req)"
    by (simp add: initial_state_def sample_defs)
  have d: "current_mode initial_state \<in> set (map fst (modes sample_policy))"
    by (simp add: initial_state_def sample_defs)
  show ?thesis
    using unknown_tool_report [OF u, of typo_policy initial_state]
      unknown_tool_report [OF u, of sample_policy initial_state] p r n d
    by simp
qed

text \<open>
  C8. When the gateway's policy decision denies a request, the gateway answers with the
  denial reason, and the state after the request is the state before it: the health
  map, the fleet size, the execution log, the unhealthy set and the current mode are
  all unchanged. The gateway consults the policy decision for every tool except
  \<^verbatim>\<open>get_service_status\<close>.
\<close>

theorem denied_request_has_no_effect:
  assumes "tool_name req \<noteq> ''get_service_status''"
    and "validate pol (current_mode st) (unhealthy_services st) (tool_name req) (arguments req) =
           Inl (PolicyViolationError t m reason)"
  shows "execute_tool pol req st =
           (st, Inr \<lparr>success = False, result = None, error = Some (PolicyViolation reason),
                    policy_violation = True\<rparr>)"
  using assms by (simp add: execute_tool_def Let_def)

theorem denied_request_has_no_effect_witness:
  "execute_tool sample_policy
     \<lparr>tool_name = ''restart_service'', arguments = [(''service_name'', VStr ''web-server'')],
      execution_mode = ''REAL''\<rparr> initial_state =
   (initial_state,
    Inr \<lparr>success = False, result = None,
         error = Some (PolicyViolation ''Read-only in NORMAL mode''), policy_violation = True\<rparr>)"
proof -
  let ?req = "\<lparr>tool_name = ''restart_service'',
               arguments = [(''service_name'', VStr ''web-server'')],
               execution_mode = ''REAL''\<rparr>"
  have a: "tool_name ?req \<noteq> ''get_service_status''" by simp
  have b: "validate sample_policy (current_mode initial_state)
             (unhealthy_services initial_state) (tool_name ?req) (arguments ?req) =
           Inl (PolicyViolationError ''restart_service'' ''NORMAL'' ''Read-only in NORMAL mode'')"
    by (simp add: validate_def initial_state_def sample_defs)
  show ?thesis using denied_request_has_no_effect [OF a b] by simp
qed

text \<open>
  C9. Recovery closes the gate. In \<open>EMERGENCY\<close> mode with the service restriction
  enabled, after a restart request whose result is a successful restart of \<open>R\<close>, the
  service \<open>R\<close> is out of the unhealthy set and its health is \<open>healthy\<close>, and a restart
  request for \<open>R\<close> that follows at once is denied with the reason
  ``Target service is not unhealthy'', leaving the state as it is.
\<close>

theorem recovery_closes_gate:
  assumes mode: "current_mode st = ''EMERGENCY''"
    and en: "restriction_enabled pol ''EMERGENCY''"
    and tool: "tool_name req = ''restart_service''"
    and run: "execute_tool pol req st = (st', Inr resp)"
    and res: "result resp = Some (ToolOutput (RestartSuccess R old))"
    and tool2: "tool_name req2 = ''restart_service''"
    and arg2: "map_of (arguments req2) ''service_name'' = Some (VStr R)"
  shows "R \<notin> unhealthy_services st' \<and>
         map_of (services (infra st')) R = Some ''healthy'' \<and>
         validate pol (current_mode st') (unhealthy_services st') ''restart_service''
             (arguments req2) =
           Inl (PolicyViolationError ''restart_service'' ''EMERGENCY''
                  ''Target service is not unhealthy'') \<and>
         execute_tool pol req2 st' =
           (st', Inr \<lparr>success = False, result = None,
                     error = Some (PolicyViolation ''Target service is not unhealthy''),
                     policy_violation = True\<rparr>)"
proof -
  note s = execute_tool_restart_success [OF tool run res]
  have gone: "R \<notin> unhealthy_services st'" using s by simp
  have m': "current_mode st' = ''EMERGENCY''" using s mode by simp
  have p: "passes_static_checks pol ''EMERGENCY'' ''restart_service''"
    using s mode by simp
  have ne: "R \<noteq> []" using s by simp
  have im: "is_modification_tool ''restart_service''"
    by (simp add: is_modification_tool_def)
  have v: "validate pol (current_mode st') (unhealthy_services st') (tool_name req2)
             (arguments req2) =
           Inl (PolicyViolationError ''restart_service'' ''EMERGENCY''
                  ''Target service is not unhealthy'')"
    unfolding m' tool2
    using validate_target_gate [OF p im arg2 ne, of "unhealthy_services st'"] gone en
    by simp
  have ns: "tool_name req2 \<noteq> ''get_service_status''" using tool2 by simp
  have x: "execute_tool pol req2 st' =
           (st', Inr \<lparr>success = False, result = None,
                     error = Some (PolicyViolation ''Target service is not unhealthy''),
                     policy_violation = True\<rparr>)"
    using execute_tool_denied [OF ns v] by simp
  have h: "map_of (services (infra st')) R = Some ''healthy''" using s by simp
  show ?thesis using gone h v [unfolded tool2] x by simp
qed

theorem recovery_closes_gate_witness:
  "\<exists>st' resp.
     execute_tool sample_policy restart_web incident_state = (st', Inr resp) \<and>
     result resp = Some (ToolOutput (RestartSuccess ''web-server'' ''critical'')) \<and>
     ''web-server'' \<notin> unhealthy_services st' \<and>
     execute_tool sample_policy restart_web st' =
       (st', Inr \<lparr>success = False, result = None,
                 error = Some (PolicyViolation ''Target service is not unhealthy''),
                 policy_violation = True\<rparr>)"
proof -
  obtain st' resp where
    run: "execute_tool sample_policy restart_web incident_state = (st', Inr resp)" and
    res: "result resp = Some (ToolOutput (RestartSuccess ''web-server'' ''critical''))"
    using restart_web_run by blast
  have mode: "current_mode incident_state = ''EMERGENCY''"
    by (simp add: incident_state_eq)
  have en: "restriction_enabled sample_policy ''EMERGENCY''"
    by (simp add: sample_defs)
  have tool: "tool_name restart_web = ''restart_service''"
    by (simp add: restart_web_def)
  have arg: "map_of (arguments restart_web) ''service_name'' = Some (VStr ''web-server'')"
    by (simp add: restart_web_def)
  from recovery_closes_gate [OF mode en tool run res tool arg] run res
  show ?thesis by blast
qed

section \<open>Properties of the infrastructure\<close>

text \<open>
  C10. \<^verbatim>\<open>scale_fleet\<close> on an integer count: below 1 or above 100 the result has the
  status \<open>error\<close> and the fleet size is unchanged; from 1 to 100 the result has the
  status \<open>success\<close> and the fleet size afterwards is the count.
\<close>

theorem scale_fleet_range:
  "(count < 1 \<or> 100 < count \<longrightarrow>
      (\<exists>r. snd (scale_fleet (VInt count) c) = Inr r \<and> result_status r = Some ''error'') \<and>
      fleet_size (fst (scale_fleet (VInt count) c)) = fleet_size c) \<and>
   (1 \<le> count \<and> count \<le> 100 \<longrightarrow>
      (\<exists>r. snd (scale_fleet (VInt count) c) = Inr r \<and> result_status r = Some ''success'') \<and>
      fleet_size (fst (scale_fleet (VInt count) c)) = count)"
  by (auto simp: scale_fleet_def log_action_def Let_def)

theorem scale_fleet_range_witness:
  "fleet_size (fst (scale_fleet (VInt 0) initial_infrastructure)) = 3 \<and>
   fleet_size (fst (scale_fleet (VInt 101) initial_infrastructure)) = 3 \<and>
   fleet_size (fst (scale_fleet (VInt 100) initial_infrastructure)) = 100 \<and>
   (\<exists>r. snd (scale_fleet (VInt 0) initial_infrastructure) = Inr r \<and>
        result_status r = Some ''error'') \<and>
   (\<exists>r. snd (scale_fleet (VInt 100) initial_infrastructure) = Inr r \<and>
        result_status r = Some ''success'')"
proof -
  have f: "fleet_size initial_infrastructure = 3"
    by (simp add: initial_infrastructure_def)
  have a: "(0::int) < 1 \<or> 100 < (0::int)" by simp
  have b: "(101::int) < 1 \<or> 100 < (101::int)" by simp
  have c: "(1::int) \<le> 100 \<and> (100::int) \<le> 100" by simp
  show ?thesis
    using scale_fleet_range [of 0 initial_infrastructure]
      scale_fleet_range [of 101 initial_infrastructure]
      scale_fleet_range [of 100 initial_infrastructure] f a b c
    by simp
qed

section \<open>The registry and the health map\<close>

text \<open>
  From a state where the registry and the health map agree, every operation keeps them
  in agreement, provided a simulated incident names a service of the health map. The
  keys of the health map never change.
\<close>

lemma keys_update_known:
  "map_of svcs s = Some old \<Longrightarrow> map fst (AList.update s v svcs) = map fst svcs"
  by (induction svcs) (auto split: if_splits)

lemma names_filter_iff:
  assumes "distinct (map fst svcs)"
  shows "n \<in> set (map fst (filter (\<lambda>(name, health). P health) svcs)) \<longleftrightarrow>
           (\<exists>h. map_of svcs n = Some h \<and> P h)"
  using assms by (force simp: map_of_eq_Some_iff)

lemma in_sync_iff:
  assumes "distinct (map fst (services (infra st)))"
  shows "in_sync st \<longleftrightarrow>
           (\<forall>n. n \<in> unhealthy_services st \<longleftrightarrow>
                  (\<exists>h. map_of (services (infra st)) n = Some h \<and> bad_health h))"
proof -
  have "set (get_unhealthy_services (infra st)) =
          {n. \<exists>h. map_of (services (infra st)) n = Some h \<and> bad_health h}"
    unfolding get_unhealthy_services_def bad_health_def [abs_def]
    using names_filter_iff [OF assms, of _ "\<lambda>h. h \<in> set [''critical'', ''degraded'']"]
    by blast
  then show ?thesis unfolding in_sync_def by blast
qed

lemma set_service_health_known:
  assumes "map_of (services c) s = Some old"
  shows "map_of (services (set_service_health s v c)) = (map_of (services c))(s \<mapsto> v)"
    and "map fst (services (set_service_health s v c)) = map fst (services c)"
  using assms by (simp_all add: set_service_health_def update_conv' keys_update_known)

lemma set_service_health_unknown:
  "map_of (services c) s = None \<Longrightarrow> set_service_health s v c = c"
  by (simp add: set_service_health_def)

lemma set_service_health_keys:
  "map fst (services (set_service_health s v c)) = map fst (services c)"
  by (cases "map_of (services c) s")
     (simp_all add: set_service_health_unknown set_service_health_known)

lemma in_sync_not_key:
  assumes "distinct (map fst (services (infra st)))" and "in_sync st"
    and "map_of (services (infra st)) s = None"
  shows "s \<notin> unhealthy_services st"
  using assms(2) [unfolded in_sync_iff [OF assms(1)]] assms(3) by simp

lemma in_sync_simulate_incident:
  assumes d: "distinct (map fst (services (infra st)))"
    and s: "in_sync st"
    and k: "map_of (services (infra st)) service = Some old"
  shows "in_sync (fst (simulate_incident service status st))"
proof -
  let ?c = "set_service_health service status (infra st)"
  let ?st' = "fst (simulate_incident service status st)"
  have i: "infra ?st' = ?c"
    by (simp add: simulate_incident_def Let_def register_unhealthy_service_def
          mark_service_healthy_def split: option.splits)
  have u: "unhealthy_services ?st' =
             (if bad_health status then insert service (unhealthy_services st)
              else unhealthy_services st - {service})"
    by (simp add: simulate_incident_def Let_def register_unhealthy_service_def
          mark_service_healthy_def bad_health_def split: option.splits)
  have d': "distinct (map fst (services (infra ?st')))"
    using d by (simp add: i set_service_health_keys)
  have m: "map_of (services (infra ?st')) = (map_of (services (infra st)))(service \<mapsto> status)"
    using k by (simp add: i set_service_health_known)
  show ?thesis
    unfolding in_sync_iff [OF d'] m u
    using s [unfolded in_sync_iff [OF d]] by auto
qed

lemma in_sync_fix_service:
  assumes d: "distinct (map fst (services (infra st)))"
    and s: "in_sync st"
  shows "in_sync (fix_service service st)"
proof (cases "map_of (services (infra st)) service")
  case None
  have "fix_service service st = st\<lparr>unhealthy_services := unhealthy_services st - {service}\<rparr>"
    using None by (simp add: fix_service_def mark_service_healthy_def set_service_health_unknown)
  moreover have "service \<notin> unhealthy_services st"
    using d s None by (rule in_sync_not_key)
  ultimately have "fix_service service st = st" by simp
  then show ?thesis using s by simp
next
  case (Some old)
  let ?st' = "fix_service service st"
  have i: "infra ?st' = set_service_health service ''healthy'' (infra st)"
    and u: "unhealthy_services ?st' = unhealthy_services st - {service}"
    by (simp_all add: fix_service_def mark_service_healthy_def)
  have d': "distinct (map fst (services (infra ?st')))"
    using d by (simp add: i set_service_health_keys)
  have m: "map_of (services (infra ?st')) = (map_of (services (infra st)))(service \<mapsto> ''healthy'')"
    using Some by (simp add: i set_service_health_known)
  have nb: "\<not> bad_health ''healthy''" by (simp add: bad_health_def)
  show ?thesis
    unfolding in_sync_iff [OF d'] m u
    using s [unfolded in_sync_iff [OF d]] nb by auto
qed

lemma fold_track_health_not_key:
  "map_of svcs s = None \<Longrightarrow>
     s \<in> unhealthy_services (fold (\<lambda>(n, h). track_health n h) svcs st) \<longleftrightarrow>
       s \<in> unhealthy_services st"
proof (induction svcs arbitrary: st)
  case Nil
  then show ?case by simp
next
  case (Cons p svcs)
  obtain n k where p: "p = (n, k)" by (cases p)
  from Cons.prems p have ne: "n \<noteq> s" and rest: "map_of svcs s = None"
    by (auto split: if_splits)
  show ?case using Cons.IH [OF rest] p ne by simp
qed

lemma infra_update_unhealthy_services [simp]:
  "infra (update_unhealthy_services v st) = infra st"
  by (cases v) simp_all

lemma unhealthy_update_unhealthy_services_in_sync:
  assumes d: "distinct (map fst (services (infra st)))" and s: "in_sync st"
  shows "unhealthy_services (update_unhealthy_services v st) = unhealthy_services st"
proof -
  note sync = s [unfolded in_sync_iff [OF d]]
  show ?thesis
  proof (cases v)
    case VNone
    have "n \<in> unhealthy_services (update_unhealthy_services VNone st) \<longleftrightarrow>
            n \<in> unhealthy_services st" for n
    proof (cases "map_of (services (infra st)) n")
      case None
      then show ?thesis by (simp add: fold_track_health_not_key)
    next
      case (Some h)
      have "n \<in> unhealthy_services st \<longleftrightarrow> bad_health h"
        using sync Some by simp
      then show ?thesis
        using fold_track_health_member [OF d Some, of st, folded bad_health_def]
        by simp blast
    qed
    then show ?thesis using VNone by blast
  next
    case (VStr n)
    show ?thesis
    proof (cases "map_of (services (infra st)) n")
      case None
      then show ?thesis using VStr by simp
    next
      case (Some h)
      have "n \<in> unhealthy_services st \<longleftrightarrow> bad_health h"
        using sync Some by simp
      moreover have "unhealthy_services (track_health n h st) =
                       (if bad_health h then insert n (unhealthy_services st)
                        else if h = ''healthy'' then unhealthy_services st - {n}
                        else unhealthy_services st)"
        unfolding bad_health_def by (rule track_health_fields)
      moreover have "\<not> bad_health ''healthy''" by (simp add: bad_health_def)
      ultimately show ?thesis using VStr Some by (cases "bad_health h") auto
    qed
  qed simp_all
qed

lemma in_sync_update_unhealthy_services:
  assumes d: "distinct (map fst (services (infra st)))" and s: "in_sync st"
  shows "in_sync (update_unhealthy_services v st)"
  using s unhealthy_update_unhealthy_services_in_sync [OF d s, of v]
  by (simp add: in_sync_def)

lemma as_invalid_arguments_cases:
  assumes "as_invalid_arguments tool r = (c', x)"
  shows "c' = fst r \<and> (\<forall>y. x = Inr y \<longleftrightarrow> snd r = Inr y)"
proof -
  obtain c z where r: "r = (c, z)" by (cases r)
  show ?thesis
  proof (cases z)
    case (Inl e)
    with assms r show ?thesis
      by (cases e) (auto simp: as_invalid_arguments_def)
  next
    case (Inr y)
    with assms r show ?thesis by (auto simp: as_invalid_arguments_def)
  qed
qed

lemma services_read_logs: "services (fst (read_logs v c)) = services c"
  by (cases v) (simp_all add: read_logs_def Let_def split: option.splits)

lemma services_scale_fleet: "services (fst (scale_fleet v c)) = services c"
  by (simp add: scale_fleet_def Let_def split: option.splits)

lemma services_delete_database: "services (fst (delete_database v c)) = services c"
  by (simp add: delete_database_def)

lemma services_list_services: "services (fst (list_services c)) = services c"
  by (simp add: list_services_def Let_def)

lemma execute_tool_function_unfold:
  "execute_tool_function ''get_service_status'' args c =
     (if binds [] [''service_name''] args
      then as_invalid_arguments ''get_service_status''
             (get_service_status (dict_get args ''service_name'') c)
      else (c, Inl (InvalidArguments ''get_service_status'')))"
  "execute_tool_function ''read_logs'' args c =
     (if binds [] [''lines''] args
      then as_invalid_arguments ''read_logs''
             (read_logs (dict_get_default args ''lines'' (VInt 10)) c)
      else (c, Inl (InvalidArguments ''read_logs'')))"
  "execute_tool_function ''scale_fleet'' args c =
     (if binds [''count''] [] args
      then as_invalid_arguments ''scale_fleet'' (scale_fleet (dict_get args ''count'') c)
      else (c, Inl (InvalidArguments ''scale_fleet'')))"
  "execute_tool_function ''delete_database'' args c =
     (if binds [''db_name''] [] args
      then as_invalid_arguments ''delete_database''
             (delete_database (dict_get args ''db_name'') c)
      else (c, Inl (InvalidArguments ''delete_database'')))"
  "execute_tool_function ''list_services'' args c =
     (if binds [] [] args
      then as_invalid_arguments ''list_services'' (list_services c)
      else (c, Inl (InvalidArguments ''list_services'')))"
  by (simp_all add: execute_tool_function_def tool_map_def)

lemma dispatch_services:
  assumes "(if b then as_invalid_arguments tool r else (c, Inl e)) = (c', x)"
    and "services (fst r) = services c"
  shows "services c' = services c"
proof (cases b)
  case True
  with assms(1) have "as_invalid_arguments tool r = (c', x)" by simp
  from as_invalid_arguments_cases [OF this] assms(2) show ?thesis by simp
next
  case False
  with assms(1) show ?thesis by simp
qed

lemma execute_tool_function_services_other:
  assumes "tool \<noteq> ''restart_service''"
    and "execute_tool_function tool args c = (c', x)"
  shows "services c' = services c"
proof (cases "tool \<in> set tool_map")
  case False
  with assms(2) show ?thesis by (simp add: execute_tool_function_def)
next
  case True
  then consider "tool = ''get_service_status''" | "tool = ''read_logs''"
    | "tool = ''scale_fleet''" | "tool = ''delete_database''" | "tool = ''list_services''"
    using assms(1) unfolding tool_map_def by fastforce
  then show ?thesis
  proof cases
    case 1
    with assms(2) show ?thesis by (simp add: execute_tool_function_status_services)
  next
    case 2
    from assms(2) [unfolded 2 execute_tool_function_unfold] show ?thesis
      by (rule dispatch_services) (rule services_read_logs)
  next
    case 3
    from assms(2) [unfolded 3 execute_tool_function_unfold] show ?thesis
      by (rule dispatch_services) (rule services_scale_fleet)
  next
    case 4
    from assms(2) [unfolded 4 execute_tool_function_unfold] show ?thesis
      by (rule dispatch_services) (rule services_delete_database)
  next
    case 5
    from assms(2) [unfolded 5 execute_tool_function_unfold] show ?thesis
      by (rule dispatch_services) (rule services_list_services)
  qed
qed

lemma restart_service_effect:
  assumes "restart_service v c = (c', x)"
  shows "(\<exists>R old. x = Inr (RestartSuccess R old) \<and> v = VStr R \<and>
                  map_of (services c) R = Some old \<and>
                  services c' = AList.update R ''healthy'' (services c)) \<or>
         (services c' = services c \<and>
          (\<forall>r. x = Inr r \<longrightarrow>
                (\<exists>ks. r = ServiceNotFound v ks) \<and>
                (\<forall>s. v = VStr s \<longrightarrow> map_of (services c) s = None)))"
proof (cases v)
  case (VStr s)
  then show ?thesis
    using assms by (cases "map_of (services c) s") (auto simp: restart_service_def Let_def)
qed (use assms in \<open>auto simp: restart_service_def Let_def\<close>)

lemma execute_tool_function_restart_effect:
  assumes "execute_tool_function ''restart_service'' args c = (c', x)"
  shows "(\<exists>R old. x = Inr (RestartSuccess R old) \<and>
                  dict_get args ''service_name'' = VStr R \<and>
                  map_of (services c) R = Some old \<and>
                  services c' = AList.update R ''healthy'' (services c)) \<or>
         (services c' = services c \<and>
          (\<forall>r. x = Inr r \<longrightarrow>
                (\<exists>ks. r = ServiceNotFound (dict_get args ''service_name'') ks) \<and>
                (\<forall>s. dict_get args ''service_name'' = VStr s \<longrightarrow>
                     map_of (services c) s = None)))"
proof (cases "binds [''service_name''] [] args")
  case False
  with assms show ?thesis by (auto simp: execute_tool_function_restart)
next
  case True
  let ?v = "dict_get args ''service_name''"
  obtain c1 x1 where r: "restart_service ?v c = (c1, x1)"
    by (cases "restart_service ?v c")
  from assms True r have a: "as_invalid_arguments ''restart_service'' (c1, x1) = (c', x)"
    by (simp add: execute_tool_function_restart)
  from as_invalid_arguments_cases [OF a]
  have c: "c' = c1" and x: "\<And>y. x = Inr y \<longleftrightarrow> x1 = Inr y" by simp_all
  from restart_service_effect [OF r] show ?thesis
    unfolding c using x by blast
qed

lemma in_sync_same_services:
  "services c' = services (infra st) \<Longrightarrow> in_sync (st\<lparr>infra := c'\<rparr>) \<longleftrightarrow> in_sync st"
  by (simp add: in_sync_def get_unhealthy_services_def)

lemma mentions_success_not_found:
  "mentions_success (ServiceNotFound v ks) \<Longrightarrow> \<exists>s. v = VStr s"
  by (cases v) simp_all

lemma in_sync_status_check:
  assumes d: "distinct (map fst (services (infra st)))" and s: "in_sync st"
    and tool: "tool_name req = ''get_service_status''"
  shows "map fst (services (infra (fst (execute_tool pol req st)))) =
           map fst (services (infra st)) \<and>
         in_sync (fst (execute_tool pol req st))"
proof -
  obtain c' x where etf:
    "execute_tool_function ''get_service_status'' (arguments req) (infra st) = (c', x)"
    by (cases "execute_tool_function ''get_service_status'' (arguments req) (infra st)")
  have svc: "services c' = services (infra st)"
    using etf by (rule execute_tool_function_status_services)
  have s1: "in_sync (st\<lparr>infra := c'\<rparr>)"
    using s svc by (simp add: in_sync_same_services)
  have d1: "distinct (map fst (services (infra (st\<lparr>infra := c'\<rparr>))))"
    using d svc by simp
  show ?thesis
  proof (cases x)
    case (Inl e)
    with execute_tool_status [OF tool etf, of pol] s1 svc show ?thesis by simp
  next
    case (Inr r)
    with execute_tool_status [OF tool etf, of pol]
      in_sync_update_unhealthy_services [OF d1 s1, of "dict_get (arguments req) ''service_name''"]
      svc
    show ?thesis by simp
  qed
qed

lemma in_sync_restart:
  assumes d: "distinct (map fst (services (infra st)))" and s: "in_sync st"
    and k: "map_of (services (infra st)) R = Some old"
    and c': "services c' = AList.update R ''healthy'' (services (infra st))"
  shows "map fst (services (set_service_health R ''healthy'' c')) =
           map fst (services (infra st)) \<and>
         in_sync ((mark_service_healthy R (st\<lparr>infra := c'\<rparr>))
                    \<lparr>infra := set_service_health R ''healthy'' c'\<rparr>)"
proof -
  let ?st' = "(mark_service_healthy R (st\<lparr>infra := c'\<rparr>))
                \<lparr>infra := set_service_health R ''healthy'' c'\<rparr>"
  have k': "map_of (services c') R = Some ''healthy''"
    by (simp add: c' update_conv')
  have keys: "map fst (services (infra ?st')) = map fst (services (infra st))"
    using k by (simp add: set_service_health_keys c' keys_update_known)
  have d': "distinct (map fst (services (infra ?st')))"
    using d keys by simp
  have m: "map_of (services (infra ?st')) = (map_of (services (infra st)))(R \<mapsto> ''healthy'')"
    by (simp add: set_service_health_known(1) [OF k'] c' update_conv')
  have u: "unhealthy_services ?st' = unhealthy_services st - {R}"
    by (simp add: mark_service_healthy_def)
  have nb: "\<not> bad_health ''healthy''" by (simp add: bad_health_def)
  have "in_sync ?st'"
    unfolding in_sync_iff [OF d'] m u
    using s [unfolded in_sync_iff [OF d]] nb by auto
  then show ?thesis using keys by simp
qed

lemma in_sync_validated_tool:
  assumes d: "distinct (map fst (services (infra st)))" and s: "in_sync st"
    and ns: "tool_name req \<noteq> ''get_service_status''"
  shows "map fst (services (infra (fst (execute_tool pol req st)))) =
           map fst (services (infra st)) \<and>
         in_sync (fst (execute_tool pol req st))"
proof (cases "validate pol (current_mode st) (unhealthy_services st) (tool_name req)
                (arguments req)")
  case (Inl e)
  from execute_tool_denied [OF ns Inl] s show ?thesis by simp
next
  case (Inr ok)
  show ?thesis
  proof (cases "real_execution req")
    case False
    from execute_tool_not_real [OF ns Inr False] s show ?thesis by simp
  next
    case True
    obtain c' x where etf:
      "execute_tool_function (tool_name req) (arguments req) (infra st) = (c', x)"
      by (cases "execute_tool_function (tool_name req) (arguments req) (infra st)")
    note eq = execute_tool_real [OF ns Inr True etf]
    let ?v = "dict_get (arguments req) ''service_name''"
    have same: "map fst (services (infra (fst (execute_tool pol req st)))) =
                  map fst (services (infra st)) \<and>
                in_sync (fst (execute_tool pol req st))"
      if svc: "services c' = services (infra st)"
        and nf: "\<And>r. x = Inr r \<Longrightarrow> tool_name req = ''restart_service'' \<Longrightarrow>
                   mentions_success r \<Longrightarrow>
                   \<exists>s. ?v = VStr s \<and> map_of (services (infra st)) s = None"
    proof -
      have s1: "in_sync (st\<lparr>infra := c'\<rparr>)"
        using s svc by (simp add: in_sync_same_services)
      show ?thesis
      proof (cases x)
        case (Inl e)
        with eq s1 svc show ?thesis by simp
      next
        case r: (Inr r)
        show ?thesis
        proof (cases "tool_name req = ''restart_service'' \<and> mentions_success r")
          case False
          with eq r s1 svc show ?thesis by auto
        next
          case yes: True
          then obtain n where v: "?v = VStr n"
            and none: "map_of (services (infra st)) n = None"
            using nf [OF r] by blast
          have "n \<notin> unhealthy_services st"
            using d s none by (rule in_sync_not_key)
          then have u: "unhealthy_services st - {n} = unhealthy_services st" by simp
          have "map_of (services c') n = None" using none svc by simp
          then have c: "set_service_health n ''healthy'' c' = c'"
            by (rule set_service_health_unknown)
          have "reconcile_restart ?v (st\<lparr>infra := c'\<rparr>) = Inr (st\<lparr>infra := c'\<rparr>)"
            by (simp add: v c u mark_service_healthy_def)
          with eq r yes s1 svc show ?thesis by simp
        qed
      qed
    qed
    show ?thesis
    proof (cases "tool_name req = ''restart_service''")
      case False
      have "services c' = services (infra st)"
        using False etf by (rule execute_tool_function_services_other)
      then show ?thesis using False by (intro same) simp_all
    next
      case tool: True
      have m: "is_modification_tool (tool_name req)"
        by (simp add: tool is_modification_tool_def)
      note vt = validate_allowed_truthy_target [OF Inr m]
      from execute_tool_function_restart_effect [OF etf [unfolded tool]]
      show ?thesis
      proof (elim disjE exE conjE)
        fix R old
        assume x: "x = Inr (RestartSuccess R old)"
          and v: "?v = VStr R"
          and k: "map_of (services (infra st)) R = Some old"
          and c': "services c' = AList.update R ''healthy'' (services (infra st))"
        have R: "R \<noteq> []" using vt v by simp
        have "fst (execute_tool pol req st) =
                (mark_service_healthy R (st\<lparr>infra := c'\<rparr>))
                  \<lparr>infra := set_service_health R ''healthy'' c'\<rparr>"
          using eq x tool v R by simp
        then show ?thesis using in_sync_restart [OF d s k c'] by simp
      next
        assume svc: "services c' = services (infra st)"
          and nf: "\<forall>r. x = Inr r \<longrightarrow>
                     (\<exists>ks. r = ServiceNotFound ?v ks) \<and>
                     (\<forall>s. ?v = VStr s \<longrightarrow> map_of (services (infra st)) s = None)"
        show ?thesis
        proof (rule same [OF svc])
          fix r
          assume "x = Inr r" and ms: "mentions_success r"
          with nf obtain ks where r: "r = ServiceNotFound ?v ks"
            and none: "\<forall>s. ?v = VStr s \<longrightarrow> map_of (services (infra st)) s = None"
            by blast
          from ms r obtain n where "?v = VStr n"
            using mentions_success_not_found by blast
          with none show "\<exists>s. ?v = VStr s \<and> map_of (services (infra st)) s = None"
            by blast
        qed
      qed
    qed
  qed
qed

lemma in_sync_execute_tool:
  assumes "distinct (map fst (services (infra st)))" and "in_sync st"
  shows "map fst (services (infra (fst (execute_tool pol req st)))) =
           map fst (services (infra st)) \<and>
         in_sync (fst (execute_tool pol req st))"
  using assms in_sync_status_check in_sync_validated_tool by blast

lemma keys_simulate_incident:
  "map fst (services (infra (fst (simulate_incident service status st)))) =
     map fst (services (infra st))"
  by (simp add: simulate_incident_def Let_def register_unhealthy_service_def
        mark_service_healthy_def set_service_health_keys split: option.splits)

lemma keys_fix_service:
  "map fst (services (infra (fix_service service st))) = map fst (services (infra st))"
  by (simp add: fix_service_def mark_service_healthy_def set_service_health_keys)

lemma in_sync_set_mode: "in_sync (fst (set_mode pol mode st)) \<longleftrightarrow> in_sync st"
  by (simp add: set_mode_def in_sync_def)

lemma infra_set_mode [simp]: "infra (fst (set_mode pol mode st)) = infra st"
  by (simp add: set_mode_def)

lemma reachable_in_sync:
  assumes "reachable pol st"
  shows "distinct (map fst (services (infra st))) \<and> in_sync st"
  using assms
proof (induction rule: reachable.induct)
  case reach_initial
  show ?case
    by (simp add: initial_state_def initial_infrastructure_def in_sync_def
          get_unhealthy_services_def)
next
  case (reach_set_mode st mode)
  then show ?case by (simp add: in_sync_set_mode)
next
  case (reach_execute_tool st req)
  then show ?case using in_sync_execute_tool [of st pol req] by simp
next
  case (reach_fix_service st service)
  then show ?case using in_sync_fix_service [of st service] by (simp add: keys_fix_service)
next
  case (reach_simulate_incident st service status)
  then obtain old where "map_of (services (infra st)) service = Some old"
    by (metis map_of_eq_None_iff not_Some_eq set_map)
  with reach_simulate_incident.IH show ?case
    using in_sync_simulate_incident [of st service old status]
    by (simp add: keys_simulate_incident)
qed

text \<open>
  C3 does not hold of the code. \<^verbatim>\<open>simulate_incident\<close> registers the service in the
  unhealthy set whether or not it is a key of the health map, while
  \<^verbatim>\<open>set_service_health\<close> ignores a service that is no key. From the initial state, where
  the two structures agree, an incident on the unknown service \<open>ghost\<close> leaves \<open>ghost\<close>
  in the unhealthy set and no critical or degraded entry in the health map; the handler
  then raises \<^verbatim>\<open>KeyError\<close>, after the write. By \<open>reachable_in_sync\<close> this is the only
  way in which the server's operations separate the two structures.
\<close>

theorem simulate_incident_unknown_service_diverges:
  "in_sync initial_state \<and>
   unhealthy_services (fst (simulate_incident ''ghost'' ''critical'' initial_state)) =
     {''ghost''} \<and>
   get_unhealthy_services (infra (fst (simulate_incident ''ghost'' ''critical'' initial_state))) =
     [] \<and>
   \<not> in_sync (fst (simulate_incident ''ghost'' ''critical'' initial_state)) \<and>
   snd (simulate_incident ''ghost'' ''critical'' initial_state) = Inl (KeyError ''ghost'')"
  by (simp add: in_sync_def eval_defs)

section \<open>The fleet size under the gateway\<close>

text \<open>
  A consequence of the target-presence check on \<^verbatim>\<open>scale_fleet\<close>: the policy
  decision allows the tool only with a \<^verbatim>\<open>service_name\<close> argument, and with that argument
  the call \<^verbatim>\<open>scale_fleet(**arguments)\<close> does not bind. No \<^verbatim>\<open>scale_fleet\<close> request to the
  gateway changes the fleet size.
\<close>

lemma binds_count_no_target:
  "truthy (dict_get args ''service_name'') \<Longrightarrow> \<not> binds [''count''] [] args"
proof -
  assume t: "truthy (dict_get args ''service_name'')"
  then have "map_of args ''service_name'' \<noteq> None"
    by (cases "map_of args ''service_name''") (simp_all add: dict_get_def)
  then have "''service_name'' \<in> set (map fst args)"
    by (metis map_of_eq_None_iff set_map)
  then show ?thesis
    by (force simp: binds_def list_all_iff)
qed

lemma scale_fleet_never_runs:
  assumes tool: "tool_name req = ''scale_fleet''"
  shows "fleet_size (infra (fst (execute_tool pol req st))) = fleet_size (infra st)"
proof -
  have ns: "tool_name req \<noteq> ''get_service_status''" using tool by simp
  show ?thesis
  proof (cases "validate pol (current_mode st) (unhealthy_services st) (tool_name req)
                  (arguments req)")
    case (Inl e)
    from execute_tool_denied [OF ns Inl] show ?thesis by simp
  next
    case (Inr ok)
    show ?thesis
    proof (cases "real_execution req")
      case False
      from execute_tool_not_real [OF ns Inr False] show ?thesis by simp
    next
      case True
      have m: "is_modification_tool (tool_name req)"
        by (simp add: tool is_modification_tool_def)
      have "\<not> binds [''count''] [] (arguments req)"
        using validate_allowed_truthy_target [OF Inr m] by (simp add: binds_count_no_target)
      then have etf: "execute_tool_function (tool_name req) (arguments req) (infra st) =
                        (infra st, Inl (InvalidArguments ''scale_fleet''))"
        by (simp add: tool execute_tool_function_unfold)
      from execute_tool_real [OF ns Inr True etf] show ?thesis by simp
    qed
  qed
qed

end
